theory Spec2Isabelle
  imports Main "HOL-Library.Word"
begin

section \<open>JavaScript string primitives\<close>

text \<open>
  The document parser works on JavaScript strings. A string is modelled as a list of
  code units; a \<^typ>\<open>char\<close> stands for a code unit in the range 0..255 (Basic Latin and
  Latin-1), so that \<^const>\<open>length\<close> is the \<^verbatim>\<open>.length\<close> of the source. Every literal
  of the source is ASCII.
\<close>

text \<open>White space and line terminators removed by \<^verbatim>\<open>String.prototype.trim\<close>, in this range:
  TAB, LF, VT, FF, CR, SP and NBSP.\<close>

definition isWhiteSpace :: "char \<Rightarrow> bool" where
  "isWhiteSpace c = (of_char c \<in> {9, 10, 11, 12, 13, 32, 160 :: nat})"

definition trim :: "string \<Rightarrow> string" where
  "trim s = rev (dropWhile isWhiteSpace (rev (dropWhile isWhiteSpace s)))"

text \<open>\<^verbatim>\<open>toLowerCase\<close>: the upper-case letters of the range are A..Z and the Latin-1 letters
  U+00C0..U+00DE without the multiplication sign U+00D7; each maps to the code unit 32 above.\<close>

definition isUpper :: "char \<Rightarrow> bool" where
  "isUpper c =
     (let n = (of_char c :: nat)
      in (65 \<le> n \<and> n \<le> 90) \<or> (192 \<le> n \<and> n \<le> 222 \<and> n \<noteq> 215))"

definition lowerChar :: "char \<Rightarrow> char" where
  "lowerChar c = (if isUpper c then char_of (of_char c + (32 :: nat)) else c)"

definition toLowerCase :: "string \<Rightarrow> string" where
  "toLowerCase s = map lowerChar s"

text \<open>\<^verbatim>\<open>s.split(sep)\<close> for a one-character separator: the result is never empty.\<close>

fun split :: "char \<Rightarrow> string \<Rightarrow> string list" where
  "split sep [] = [[]]"
| "split sep (c # cs) =
     (if c = sep then [] # split sep cs
      else (case split sep cs of
              [] \<Rightarrow> [[c]]
            | w # ws \<Rightarrow> (c # w) # ws))"

text \<open>\<^verbatim>\<open>Array.prototype.pop\<close>, read for its value: \<^verbatim>\<open>undefined\<close> on the empty array.\<close>

definition pop :: "'a list \<Rightarrow> 'a option" where
  "pop xs = (if xs = [] then None else Some (last xs))"

fun startsWith :: "string \<Rightarrow> string \<Rightarrow> bool" where
  "startsWith s [] = True"
| "startsWith [] (c # t) = False"
| "startsWith (a # s) (c # t) = (a = c \<and> startsWith s t)"

fun includesStr :: "string \<Rightarrow> string \<Rightarrow> bool" where
  "includesStr [] t = startsWith [] t"
| "includesStr (a # s) t = (startsWith (a # s) t \<or> includesStr s t)"

definition endsWith :: "string \<Rightarrow> string \<Rightarrow> bool" where
  "endsWith s t = startsWith (rev s) (rev t)"

text \<open>\<^verbatim>\<open>Array.prototype.join\<close> on an array of strings.\<close>

fun join :: "string \<Rightarrow> string list \<Rightarrow> string" where
  "join sep [] = []"
| "join sep [x] = x"
| "join sep (x # y # ys) = x @ sep @ join sep (y # ys)"

text \<open>The value of \<^verbatim>\<open>v || d\<close> for a string \<^verbatim>\<open>v\<close> that may be \<^verbatim>\<open>undefined\<close>: the empty
  string is falsy.\<close>

definition orElse :: "string option \<Rightarrow> string \<Rightarrow> string" where
  "orElse v d = (case v of None \<Rightarrow> d | Some s \<Rightarrow> if s = [] then d else s)"

text \<open>The value of \<^verbatim>\<open>n || d\<close> for a number: zero is falsy.\<close>

definition orElseNum :: "nat option \<Rightarrow> nat \<Rightarrow> nat" where
  "orElseNum v d = (case v of None \<Rightarrow> d | Some n \<Rightarrow> if n = 0 then d else n)"

subsection \<open>Numbers in template literals\<close>

definition digitChar :: "nat \<Rightarrow> char" where
  "digitChar d = ''0123456789'' ! (d mod 10)"

text \<open>\<^verbatim>\<open>Number.prototype.toString\<close> on a non-negative integer: its decimal digits.\<close>

function numToString :: "nat \<Rightarrow> string" where
  "numToString n =
     (if n < 10 then [digitChar n] else numToString (n div 10) @ [digitChar (n mod 10)])"
  by pat_completeness auto
termination
  by (relation "measure id") auto

declare numToString.simps [simp del]

text \<open>The same for an integer of either sign (used for the cells of the examples).\<close>

definition intToString :: "int \<Rightarrow> string" where
  "intToString i = (if i < 0 then ''-'' @ numToString (nat (- i)) else numToString (nat i))"

text \<open>
  \<^verbatim>\<open>(fileSize / 1024).toFixed(2)\<close>. The size of a file is a non-negative integer below
  \<open>2^53\<close>, so the quotient by 1024 is an exact double, and \<^verbatim>\<open>toFixed(2)\<close> picks the integer
  \<open>m\<close> with \<open>m / 100\<close> nearest to it, the larger one on a tie: \<open>m\<close> is
  \<open>(100 * bytes + 512) div 1024\<close>. The result is the integer part of \<open>m / 100\<close>, a point and
  two digits.
\<close>

definition toFixed2KB :: "nat \<Rightarrow> string" where
  "toFixed2KB bytes =
     (let m = (100 * bytes + 512) div 1024
      in numToString (m div 100) @ ''.'' @ [digitChar (m div 10), digitChar m])"

section \<open>The data model\<close>

record Metadata =
  fileName :: string
  fileType :: string
  fileSize :: nat
  pageCount :: "nat option"
  sheetNames :: "string list option"
  rowCount :: "nat option"
  columnCount :: "nat option"

record ParsedDocument =
  content :: string
  metadata :: Metadata

text \<open>A thrown value: an \<^verbatim>\<open>Error\<close> with its message, or anything else.\<close>

datatype thrown = Error string | NonError

section \<open>The PDF extractor\<close>

text \<open>
  What the extraction service answers. \<^verbatim>\<open>fetch\<close> rejects on a network error and on the
  abort of the 30 second timer; otherwise there is a response with its \<^verbatim>\<open>ok\<close> flag, and
  \<^verbatim>\<open>response.json()\<close> rejects on a malformed body (\<open>None\<close>) or gives a value: \<^verbatim>\<open>null\<close>,
  or an object read for its \<^verbatim>\<open>content\<close> and \<^verbatim>\<open>pageCount\<close> properties.
\<close>

datatype pdf_json = JsonNull | JsonObject "string option" "nat option"

datatype fetch_result = FetchRejects | Response bool "pdf_json option"

text \<open>The body of the \<^verbatim>\<open>try\<close> block of \<^verbatim>\<open>parsePDF\<close>; \<open>None\<close> when it throws.\<close>

definition parsePDF_try :: "fetch_result \<Rightarrow> string \<Rightarrow> string \<Rightarrow> nat \<Rightarrow> ParsedDocument option" where
  "parsePDF_try response fname ftype fsize =
     (case response of
        FetchRejects \<Rightarrow> None
      | Response ok body \<Rightarrow>
          if \<not> ok then None
          else (case body of
                  None \<Rightarrow> None
                | Some JsonNull \<Rightarrow> None
                | Some (JsonObject dataContent dataPageCount) \<Rightarrow>
                    Some \<lparr> content = orElse dataContent
                             (''PDF file: '' @ fname @
                              ''\<newline>\<newline>Note: Could not extract text content from this PDF.''),
                           metadata = \<lparr> fileName = fname, fileType = ftype,
                             fileSize = fsize,
                             pageCount = Some (orElseNum dataPageCount 1),
                             sheetNames = None, rowCount = None, columnCount = None \<rparr> \<rparr>))"

text \<open>The \<^verbatim>\<open>catch\<close> block: the metadata-only document.\<close>

definition parsePDF_catch :: "string \<Rightarrow> string \<Rightarrow> nat \<Rightarrow> ParsedDocument" where
  "parsePDF_catch fname ftype fsize =
     \<lparr> content =
         ''PDF file: '' @ fname @
         ''\<newline>\<newline>File Information:\<newline>- File Name: '' @ fname @
         ''\<newline>- File Type: '' @ ftype @
         ''\<newline>- File Size: '' @ toFixed2KB fsize @
         '' KB\<newline>- Document Format: PDF\<newline>\<newline>Note: Could not extract text content from this PDF file. Please try uploading a CSV or Excel file for full content analysis, or describe what you're looking for in this PDF and I can provide guidance.'',
       metadata = \<lparr> fileName = fname, fileType = ftype, fileSize = fsize,
         pageCount = Some 1,
         sheetNames = None, rowCount = None, columnCount = None \<rparr> \<rparr>"

definition parsePDF :: "fetch_result \<Rightarrow> string \<Rightarrow> string \<Rightarrow> nat \<Rightarrow> ParsedDocument" where
  "parsePDF response fname ftype fsize =
     (case parsePDF_try response fname ftype fsize of
        Some doc \<Rightarrow> doc
      | None \<Rightarrow> parsePDF_catch fname ftype fsize)"

section \<open>The spreadsheet extractor\<close>

text \<open>
  A cell of \<^verbatim>\<open>sheet_to_json(worksheet, {header: 1})\<close>: a hole or \<^verbatim>\<open>undefined\<close>,
  \<^verbatim>\<open>null\<close>, a string, a number or a boolean. The numbers of a sheet are doubles; their
  type \<open>'n\<close> is left open, and the text that \<^verbatim>\<open>Number.prototype.toString\<close> gives for one
  is a parameter \<open>numberToString\<close> of the extractor.
\<close>

datatype 'n cell = Undefined | Null | Text string | Number 'n | Boolean bool

text \<open>What \<^verbatim>\<open>join\<close> writes for an element: nothing for \<^verbatim>\<open>undefined\<close> and \<^verbatim>\<open>null\<close>.\<close>

fun cellToString :: "('n \<Rightarrow> string) \<Rightarrow> 'n cell \<Rightarrow> string" where
  "cellToString numberToString Undefined = []"
| "cellToString numberToString Null = []"
| "cellToString numberToString (Text s) = s"
| "cellToString numberToString (Number x) = numberToString x"
| "cellToString numberToString (Boolean b) = (if b then ''true'' else ''false'')"

text \<open>The test \<^verbatim>\<open>cell !== undefined && cell !== null && cell !== ''\<close>.\<close>

definition nonEmptyCell :: "'n cell \<Rightarrow> bool" where
  "nonEmptyCell c = (c \<noteq> Undefined \<and> c \<noteq> Null \<and> c \<noteq> Text [])"

text \<open>
  A workbook as the extractor reads it: the sheet names in file order, and for a name the
  rows that \<^verbatim>\<open>sheet_to_json\<close> gives for \<^verbatim>\<open>workbook.Sheets[name]\<close>.
\<close>

record 'n workbook =
  SheetNames :: "string list"
  sheetJson :: "string \<Rightarrow> 'n cell list list"

text \<open>\<^verbatim>\<open>dataRows.forEach((row, index) => ...)\<close>, appending to \<^verbatim>\<open>content\<close> (here \<open>acc\<close>).\<close>

fun excelForEach :: "('n \<Rightarrow> string) \<Rightarrow> string \<Rightarrow> nat \<Rightarrow> 'n cell list list \<Rightarrow> string" where
  "excelForEach numberToString acc index [] = acc"
| "excelForEach numberToString acc index (row # rows) =
     excelForEach numberToString
       (if index < 10
        then acc @ ''Row '' @ numToString (index + 1) @ '': '' @
             join '' | '' (map (cellToString numberToString) row) @ ''\<newline>''
        else acc)
       (index + 1) rows"

text \<open>One turn of the loop over the sheet names, on the three variables of the loop.\<close>

definition excelSheet ::
  "('n \<Rightarrow> string) \<Rightarrow> 'n workbook \<Rightarrow> string \<times> nat \<times> nat \<Rightarrow> string \<Rightarrow> string \<times> nat \<times> nat" where
  "excelSheet numberToString wb st sheetName =
     (case st of (content0, totalRows, totalColumns) \<Rightarrow>
        let jsonData = sheetJson wb sheetName;
            content1 = content0 @ ''\<newline>\<newline>=== Sheet: '' @ sheetName @ '' ===\<newline>''
        in if length jsonData > 0 then
             let headers = hd jsonData;
                 content2 =
                   (if list_ex nonEmptyCell headers
                    then content1 @ ''Headers: '' @
                         join '' | '' (map (cellToString numberToString) headers) @ ''\<newline>''
                    else content1);
                 dataRows = filter (list_ex nonEmptyCell) (drop 1 jsonData);
                 content3 = content2 @ ''Data ('' @ numToString (length dataRows) @
                            '' rows):\<newline>'';
                 content4 = excelForEach numberToString content3 0 dataRows;
                 content5 =
                   (if length dataRows > 10
                    then content4 @ ''... and '' @ numToString (length dataRows - 10) @
                         '' more rows\<newline>''
                    else content4)
             in (content5, totalRows + length dataRows, max totalColumns (length headers))
           else (content1, totalRows, totalColumns))"

definition parseExcel ::
  "('n \<Rightarrow> string) \<Rightarrow> 'n workbook \<Rightarrow> string \<Rightarrow> string \<Rightarrow> nat \<Rightarrow> ParsedDocument" where
  "parseExcel numberToString wb fname ftype fsize =
     (case foldl (excelSheet numberToString wb) ([], 0, 0) (SheetNames wb) of
        (content', totalRows, totalColumns) \<Rightarrow>
          \<lparr> content = trim content',
            metadata = \<lparr> fileName = fname, fileType = ftype, fileSize = fsize,
              pageCount = None,
              sheetNames = Some (SheetNames wb),
              rowCount = Some totalRows,
              columnCount = Some totalColumns \<rparr> \<rparr>)"

section \<open>The delimited-text extractor\<close>

text \<open>
  A record emitted by the CSV parser is an object from header to field; it is modelled by
  its own properties in the order of \<^verbatim>\<open>Object.keys\<close>.
\<close>

type_synonym csv_row = "(string \<times> string) list"

definition keys :: "csv_row \<Rightarrow> string list" where
  "keys row = map fst row"

text \<open>
  \<^verbatim>\<open>row[header] || ''\<close>, as \<^verbatim>\<open>join\<close> writes it. An own property of a record is a string,
  falsy when empty. A name that the record does not own is read through the prototype
  chain: \<open>objectPrototype\<close> gives, for the names that \<^verbatim>\<open>Object.prototype\<close> defines (such as
  \<^verbatim>\<open>constructor\<close> and \<^verbatim>\<open>toString\<close>), the text that \<^verbatim>\<open>join\<close> writes for the inherited
  function or object, which is truthy. Under any other name the value is \<^verbatim>\<open>undefined\<close>
  and the empty string is written. The table is a parameter of the extractor.
\<close>

definition fieldText :: "(string \<Rightarrow> string option) \<Rightarrow> csv_row \<Rightarrow> string \<Rightarrow> string" where
  "fieldText objectPrototype row header =
     (case map_of row header of
        Some v \<Rightarrow> orElse (Some v) []
      | None \<Rightarrow> (case objectPrototype header of Some inherited \<Rightarrow> inherited | None \<Rightarrow> []))"

text \<open>\<^verbatim>\<open>results.slice(0, 20).forEach((row, index) => ...)\<close>, appending to \<^verbatim>\<open>content\<close> (here \<open>acc\<close>).\<close>

fun csvForEach ::
  "(string \<Rightarrow> string option) \<Rightarrow> string list \<Rightarrow> string \<Rightarrow> nat \<Rightarrow> csv_row list \<Rightarrow> string" where
  "csvForEach objectPrototype headers acc index [] = acc"
| "csvForEach objectPrototype headers acc index (row # rows) =
     csvForEach objectPrototype headers
       (acc @ ''Row '' @ numToString (index + 1) @ '': '' @
        join '' | '' (map (fieldText objectPrototype row) headers) @ ''\<newline>'')
       (index + 1) rows"

text \<open>The handler of the \<^verbatim>\<open>end\<close> event, on the records collected.\<close>

definition parseCSV_end ::
  "(string \<Rightarrow> string option) \<Rightarrow> csv_row list \<Rightarrow> string \<Rightarrow> string \<Rightarrow> nat \<Rightarrow> ParsedDocument" where
  "parseCSV_end objectPrototype results fname ftype fsize =
     (let content1 =
            (if length results > 0 then
               let headers = keys (hd results);
                   c1 = ''Headers: '' @ join '' | '' headers @ ''\<newline>'';
                   c2 = c1 @ ''Data ('' @ numToString (length results) @ '' rows):\<newline>'';
                   c3 = csvForEach objectPrototype headers c2 0 (take 20 results)
               in if length results > 20
                  then c3 @ ''... and '' @ numToString (length results - 20) @
                       '' more rows\<newline>''
                  else c3
             else [])
      in \<lparr> content = trim content1,
           metadata = \<lparr> fileName = fname, fileType = ftype, fileSize = fsize,
             pageCount = None,
             sheetNames = None,
             rowCount = Some (length results),
             columnCount = Some (if length results > 0 then length (keys (hd results)) else 0)
           \<rparr> \<rparr>)"

text \<open>The stream ends with the records, or emits \<^verbatim>\<open>error\<close> and the promise rejects.\<close>

definition parseCSV ::
  "(string \<Rightarrow> string option) \<Rightarrow> thrown + csv_row list \<Rightarrow> string \<Rightarrow> string \<Rightarrow> nat \<Rightarrow>
     thrown + ParsedDocument" where
  "parseCSV objectPrototype stream fname ftype fsize =
     (case stream of
        Inl err \<Rightarrow> Inl err
      | Inr results \<Rightarrow> Inr (parseCSV_end objectPrototype results fname ftype fsize))"

section \<open>The dispatcher\<close>

type_synonym buffer = "8 word list"

record File =
  name :: string
  type :: string
  size :: nat

text \<open>
  The collaborators of the extractors, as functions of what they are given: the answer
  of the extraction service to the posted file, what \<^verbatim>\<open>XLSX.read\<close> makes of the buffer
  (or throws), and what the CSV parser makes of it; and the two parameters of the
  renderings, the text of a number and the table of \<^verbatim>\<open>Object.prototype\<close>.
\<close>

record 'n Env =
  fetchParsePdf :: "buffer \<Rightarrow> string \<Rightarrow> string \<Rightarrow> fetch_result"
  xlsxRead :: "buffer \<Rightarrow> thrown + 'n workbook"
  csvParser :: "buffer \<Rightarrow> thrown + csv_row list"
  jsNumberToString :: "'n \<Rightarrow> string"
  jsObjectPrototype :: "string \<Rightarrow> string option"

text \<open>\<^verbatim>\<open>fileName.split('.').pop()?.toLowerCase()\<close>.\<close>

definition extensionOf :: "string \<Rightarrow> string option" where
  "extensionOf fname = map_option toLowerCase (pop (split CHR ''.'' fname))"

text \<open>An optional string in a template literal.\<close>

definition template :: "string option \<Rightarrow> string" where
  "template v = (case v of None \<Rightarrow> ''undefined'' | Some s \<Rightarrow> s)"

text \<open>The \<^verbatim>\<open>switch\<close> inside the \<^verbatim>\<open>try\<close> block: \<open>Inl\<close> is a throw.\<close>

definition parseDocument_switch :: "'n Env \<Rightarrow> File \<Rightarrow> buffer \<Rightarrow> thrown + ParsedDocument" where
  "parseDocument_switch env file fileBuffer =
     (let fname = name file;
          ftype = type file;
          fsize = size file;
          extension = extensionOf fname
      in if extension = Some ''pdf'' then
           Inr (parsePDF (fetchParsePdf env fileBuffer fname ftype)
                  fname ftype fsize)
         else if extension = Some ''xlsx'' \<or> extension = Some ''xls'' then
           (case xlsxRead env fileBuffer of
              Inl err \<Rightarrow> Inl err
            | Inr wb \<Rightarrow> Inr (parseExcel (jsNumberToString env) wb fname ftype fsize))
         else if extension = Some ''csv'' then
           parseCSV (jsObjectPrototype env) (csvParser env fileBuffer) fname ftype fsize
         else Inl (Error (''Unsupported file type: '' @ template extension)))"

text \<open>The message of the error thrown by the \<^verbatim>\<open>catch\<close> block.\<close>

definition failedToParse :: "thrown \<Rightarrow> string" where
  "failedToParse err =
     ''Failed to parse document: '' @
     (case err of Error message \<Rightarrow> message | NonError \<Rightarrow> ''Unknown error'')"

text \<open>\<^verbatim>\<open>parseDocument\<close>: \<open>Inl\<close> carries the message of the error it throws.\<close>

definition parseDocument :: "'n Env \<Rightarrow> File \<Rightarrow> buffer \<Rightarrow> string + ParsedDocument" where
  "parseDocument env file fileBuffer =
     (case parseDocument_switch env file fileBuffer of
        Inr doc \<Rightarrow> Inr doc
      | Inl err \<Rightarrow> Inl (failedToParse err))"

section \<open>The prompt composer\<close>

definition isPDF :: "ParsedDocument \<Rightarrow> bool" where
  "isPDF parsedDoc =
     (fileType (metadata parsedDoc) = ''application/pdf'' \<or>
      endsWith (toLowerCase (fileName (metadata parsedDoc))) ''.pdf'')"

definition hasContent :: "ParsedDocument \<Rightarrow> bool" where
  "hasContent parsedDoc =
     (length (content parsedDoc) > 200 \<and>
      \<not> includesStr (content parsedDoc) ''Document Analysis Request'')"

text \<open>The lines of the metadata block that depend on an optional field: a number is
  tested for truthiness, so a zero gives no line; an array is always truthy.\<close>

definition pagesLine :: "Metadata \<Rightarrow> string" where
  "pagesLine m =
     (case pageCount m of
        None \<Rightarrow> []
      | Some n \<Rightarrow> if n \<noteq> 0 then ''- Pages: '' @ numToString n @ ''\<newline>'' else [])"

definition sheetsLine :: "Metadata \<Rightarrow> string" where
  "sheetsLine m =
     (case sheetNames m of
        None \<Rightarrow> []
      | Some names \<Rightarrow> ''- Sheets: '' @ join '', '' names @ ''\<newline>'')"

definition rowsLine :: "Metadata \<Rightarrow> string" where
  "rowsLine m =
     (case rowCount m of
        None \<Rightarrow> []
      | Some n \<Rightarrow> if n \<noteq> 0 then ''- Rows: '' @ numToString n @ ''\<newline>'' else [])"

definition columnsLine :: "Metadata \<Rightarrow> string" where
  "columnsLine m =
     (case columnCount m of
        None \<Rightarrow> []
      | Some n \<Rightarrow> if n \<noteq> 0 then ''- Columns: '' @ numToString n @ ''\<newline>'' else [])"

definition questionPart :: "string option \<Rightarrow> string" where
  "questionPart userMessage =
     (case userMessage of
        Some msg \<Rightarrow>
          if msg \<noteq> [] then
            ''USER'S QUESTION: '' @ [CHR 0x22] @ msg @ [CHR 0x22] @ ''\<newline>\<newline>'' @
            ''Please answer the user's question using the document content above. If the document doesn't contain enough information to fully answer their question, let them know what information is available and suggest what additional information might be needed.\<newline>\<newline>''
          else
            ''The user has uploaded this document without a specific question. Please provide a comprehensive analysis.\<newline>\<newline>''
      | None \<Rightarrow>
          ''The user has uploaded this document without a specific question. Please provide a comprehensive analysis.\<newline>\<newline>'')"

definition pdfGuidance :: string where
  "pdfGuidance =
     ''Since this is a PDF with limited text extraction, please:\<newline>'' @
     ''1. Answer the user's question based on available metadata and any extracted content\<newline>'' @
     ''2. Explain what types of information could be found in this PDF\<newline>'' @
     ''3. Suggest alternative ways to get the information they need\<newline>''"

definition genericGuidance :: string where
  "genericGuidance =
     ''Please provide a helpful response that:\<newline>'' @
     ''1. Directly answers the user's question using the document content\<newline>'' @
     ''2. References specific text, data, or sections from the document when relevant\<newline>'' @
     ''3. Highlights key insights, patterns, or trends found in the document\<newline>'' @
     ''4. Provides actionable recommendations based on the document findings\<newline>'' @
     ''5. If the document doesn't contain enough information to fully answer the question, explain what information is available and what additional details might be needed\<newline>''"

definition generateAnalysisPrompt :: "ParsedDocument \<Rightarrow> string option \<Rightarrow> string" where
  "generateAnalysisPrompt parsedDoc userMessage =
     (let m = metadata parsedDoc;
          prompt0 = ''You are analyzing a document to answer a user's question. Please focus on answering their specific question using the document content.\<newline>\<newline>'';
          prompt1 = prompt0 @ ''Document Information:\<newline>'';
          prompt2 = prompt1 @ ''- File: '' @ fileName m @ ''\<newline>'';
          prompt3 = prompt2 @ ''- Type: '' @ fileType m @ ''\<newline>'';
          prompt4 = prompt3 @ ''- Size: '' @ toFixed2KB (fileSize m) @ '' KB\<newline>'';
          prompt5 = prompt4 @ pagesLine m;
          prompt6 = prompt5 @ sheetsLine m;
          prompt7 = prompt6 @ rowsLine m;
          prompt8 = prompt7 @ columnsLine m;
          prompt9 = prompt8 @ ''\<newline>Document Content:\<newline>'' @ content parsedDoc @
                    ''\<newline>\<newline>'';
          prompt10 = prompt9 @ questionPart userMessage
      in if isPDF parsedDoc \<and> \<not> hasContent parsedDoc
         then prompt10 @ pdfGuidance
         else prompt10 @ genericGuidance)"

section \<open>The rendering as the specification words it\<close>

text \<open>
  The definitions of this section follow the words of the specification, not the code;
  the theorems below compare the extractors with them.
\<close>

text \<open>A row is discarded if every cell is empty or undefined.\<close>

definition blankRow :: "'n cell list \<Rightarrow> bool" where
  "blankRow row = (\<forall>c \<in> set row. c = Undefined \<or> c = Null \<or> c = Text [])"

text \<open>Data rows are all rows after the header row; the blank ones are discarded.\<close>

definition survivingRows :: "'n cell list list \<Rightarrow> 'n cell list list" where
  "survivingRows jsonData = filter (\<lambda>row. \<not> blankRow row) (tl jsonData)"

text \<open>A rendered row, \<^verbatim>\<open>Row <n>: <v1> | <v2> | ...\<close>, and rows numbered from 1.\<close>

definition renderRow :: "nat \<Rightarrow> string list \<Rightarrow> string" where
  "renderRow n vals = ''Row '' @ numToString n @ '': '' @ join '' | '' vals @ ''\<newline>''"

definition renderRows :: "nat \<Rightarrow> string list list \<Rightarrow> string" where
  "renderRows start rows = concat (map (\<lambda>(i, vals). renderRow (i + 1) vals) (enumerate start rows))"

text \<open>The one-line count of the remainder, when more rows exist than are rendered.\<close>

definition moreRowsLine :: "nat \<Rightarrow> nat \<Rightarrow> string" where
  "moreRowsLine n limit =
     (if n > limit then ''... and '' @ numToString (n - limit) @ '' more rows\<newline>''
      else [])"

text \<open>What one sheet contributes: its section marker, and for a sheet that is not empty
  the headers (if the first row has a non-empty cell), the count of surviving data rows,
  the first 10 of them and the remainder line.\<close>

definition sheetSection :: "('n \<Rightarrow> string) \<Rightarrow> string \<Rightarrow> 'n cell list list \<Rightarrow> string" where
  "sheetSection numberToString sheetName jsonData =
     ''\<newline>\<newline>=== Sheet: '' @ sheetName @ '' ===\<newline>'' @
     (if jsonData = [] then []
      else (if blankRow (hd jsonData) then []
            else ''Headers: '' @
                 join '' | '' (map (cellToString numberToString) (hd jsonData)) @ ''\<newline>'') @
           ''Data ('' @ numToString (length (survivingRows jsonData)) @ '' rows):\<newline>'' @
           renderRows 0
             (map (map (cellToString numberToString)) (take 10 (survivingRows jsonData))) @
           moreRowsLine (length (survivingRows jsonData)) 10)"

text \<open>The rendering of the records: headers, count, the first 20 records, each with
  its fields under the headers of the first record as the extractor writes them, and
  the remainder line; nothing when there is no record.\<close>

definition csvRendering :: "(string \<Rightarrow> string option) \<Rightarrow> csv_row list \<Rightarrow> string" where
  "csvRendering objectPrototype results =
     (case results of
        [] \<Rightarrow> []
      | first # _ \<Rightarrow>
          ''Headers: '' @ join '' | '' (keys first) @ ''\<newline>'' @
          ''Data ('' @ numToString (length results) @ '' rows):\<newline>'' @
          renderRows 0
            (map (\<lambda>row. map (fieldText objectPrototype row) (keys first)) (take 20 results)) @
          moreRowsLine (length results) 20)"

text \<open>The lines of a text.\<close>

definition linesOf :: "string \<Rightarrow> string list" where
  "linesOf s = split CHR ''\<newline>'' s"

section \<open>Example inputs\<close>

text \<open>A workbook with two sheets: one with a header row, 15 non-blank data rows and a
  blank row among them, and one empty.\<close>

definition exampleWorkbook :: "int workbook" where
  "exampleWorkbook =
     \<lparr> SheetNames = [''Data'', ''Empty''],
       sheetJson = (\<lambda>sheetName.
         if sheetName = ''Data''
         then [Text ''id'', Text ''item''] #
              map (\<lambda>i. [Number (int i), Text ''v'']) [1..<8] @
              [[Undefined, Text [], Null]] @
              map (\<lambda>i. [Number (int i), Text ''v'']) [8..<16]
         else []) \<rparr>"

text \<open>The same workbook with a line break in the last cell of its first data row.\<close>

definition lineBreakWorkbook :: "int workbook" where
  "lineBreakWorkbook =
     \<lparr> SheetNames = [''Data'', ''Empty''],
       sheetJson = (\<lambda>sheetName.
         if sheetName = ''Data''
         then [Text ''id'', Text ''item''] #
              [Number 1, Text ''v\<newline>... and 5 more rows''] #
              map (\<lambda>i. [Number (int i), Text ''v'']) [2..<16]
         else []) \<rparr>"

text \<open>A CSV with headers \<^verbatim>\<open>a,b,c\<close> and 25 data rows.\<close>

definition exampleRecords :: "csv_row list" where
  "exampleRecords = map (\<lambda>i. [(''a'', numToString i), (''b'', ''x''), (''c'', ''y'')]) [1..<26]"

text \<open>Part of the table of \<^verbatim>\<open>Object.prototype\<close>, with the text of a native function as
  one engine writes it.\<close>

definition exampleObjectPrototype :: "string \<Rightarrow> string option" where
  "exampleObjectPrototype =
     map_of [(''constructor'', ''function Object() { [native code] }''),
             (''toString'', ''function toString() { [native code] }''),
             (''valueOf'', ''function valueOf() { [native code] }'')]"

definition exampleEnv :: "int Env" where
  "exampleEnv =
     \<lparr> fetchParsePdf = (\<lambda>fileBuffer fname ftype. FetchRejects),
       xlsxRead = (\<lambda>fileBuffer. Inr exampleWorkbook),
       csvParser = (\<lambda>fileBuffer. Inr exampleRecords),
       jsNumberToString = intToString,
       jsObjectPrototype = exampleObjectPrototype \<rparr>"

text \<open>A document with empty content and no optional metadata.\<close>

definition degenerateDocument :: ParsedDocument where
  "degenerateDocument =
     \<lparr> content = [],
       metadata = \<lparr> fileName = [], fileType = [], fileSize = 0,
         pageCount = None, sheetNames = None, rowCount = None, columnCount = None \<rparr> \<rparr>"

section \<open>Properties of the string primitives\<close>


lemma startsWith_append: "startsWith (t @ s) t"
  by (induction t) auto

lemma startsWith_iff: "startsWith s t \<longleftrightarrow> (\<exists>q. s = t @ q)"
  by (induction s t rule: startsWith.induct) auto

lemma includesStr_iff: "includesStr s t \<longleftrightarrow> (\<exists>p q. s = p @ t @ q)"
proof (induction s)
  case Nil
  then show ?case by (cases t) auto
next
  case (Cons a s)
  show ?case
  proof
    assume "includesStr (a # s) t"
    then consider "startsWith (a # s) t" | "includesStr s t" by auto
    then show "\<exists>p q. a # s = p @ t @ q"
    proof cases
      case 1
      then obtain q where "a # s = t @ q" using startsWith_iff by blast
      then have "a # s = [] @ t @ q" by simp
      then show ?thesis by blast
    next
      case 2
      then obtain p q where "s = p @ t @ q" using Cons.IH by blast
      then have "a # s = (a # p) @ t @ q" by simp
      then show ?thesis by blast
    qed
  next
    assume "\<exists>p q. a # s = p @ t @ q"
    then obtain p q where pq: "a # s = p @ t @ q" by blast
    show "includesStr (a # s) t"
    proof (cases p)
      case Nil
      with pq have "a # s = t @ q" by simp
      then have "startsWith (a # s) t" using startsWith_iff by blast
      then show ?thesis by simp
    next
      case (Cons b p')
      with pq have "s = p' @ t @ q" by simp
      then have "includesStr s t" using Cons.IH by blast
      then show ?thesis by simp
    qed
  qed
qed

lemma includesStr_mid: "includesStr (p @ t @ q) t"
  using includesStr_iff by blast

lemma split_not_Nil: "split sep s \<noteq> []"
  by (induction s) (auto split: list.splits)

lemma split_no_sep: "sep \<notin> set s \<Longrightarrow> split sep s = [s]"
  by (induction s) auto

lemma split_append: "split sep (p @ sep # q) = split sep p @ split sep q"
proof (induction p)
  case Nil
  then show ?case by simp
next
  case (Cons c p)
  obtain w ws where "split sep p = w # ws"
    using split_not_Nil by (cases "split sep p") auto
  with Cons show ?case by simp
qed

lemma extensionOf_Some: "\<exists>ext. extensionOf fname = Some ext"
  by (simp add: extensionOf_def pop_def split_not_Nil)

lemma extensionOf_dot:
  "CHR ''.'' \<notin> set q \<Longrightarrow> extensionOf (p @ ''.'' @ q) = Some (toLowerCase q)"
  by (simp add: extensionOf_def pop_def split_append split_not_Nil split_no_sep)

lemma extensionOf_no_dot:
  "CHR ''.'' \<notin> set fname \<Longrightarrow> extensionOf fname = Some (toLowerCase fname)"
  by (simp add: extensionOf_def pop_def split_no_sep)

lemma parsePDF_try_None_iff:
  "parsePDF_try response fname ftype fsize = None \<longleftrightarrow>
     (response = FetchRejects \<or> (\<exists>body. response = Response False body) \<or>
      response = Response True None \<or> response = Response True (Some JsonNull))"
  by (auto simp: parsePDF_try_def split: fetch_result.splits option.splits pdf_json.splits)

section \<open>The extractors against the rendering of the specification\<close>

lemma list_ex_nonEmptyCell: "list_ex nonEmptyCell row \<longleftrightarrow> \<not> blankRow row"
  by (auto simp: list_ex_iff nonEmptyCell_def blankRow_def)

lemma dataRows_eq: "filter (list_ex nonEmptyCell) (drop 1 jsonData) = survivingRows jsonData"
proof -
  have "list_ex nonEmptyCell = (\<lambda>row :: 'a cell list. \<not> blankRow row)"
    by (rule ext) (rule list_ex_nonEmptyCell)
  then show ?thesis
    by (simp add: survivingRows_def drop_Suc)
qed

lemma renderRows_Nil: "renderRows start [] = []"
  by (simp add: renderRows_def)

lemma renderRows_Cons:
  "renderRows start (vals # rows) = renderRow (start + 1) vals @ renderRows (Suc start) rows"
  by (simp add: renderRows_def)

lemma excelForEach_eq:
  "excelForEach numberToString acc index rows =
     acc @ renderRows index (map (map (cellToString numberToString)) (take (10 - index) rows))"
proof (induction rows arbitrary: acc index)
  case Nil
  then show ?case by (simp add: renderRows_Nil)
next
  case (Cons row rows)
  show ?case
  proof (cases "index < 10")
    case True
    then have "10 - index = Suc (10 - Suc index)"
      by arith
    then have t: "take (10 - index) (row # rows) = row # take (10 - Suc index) rows"
      by (metis take_Suc_Cons)
    show ?thesis
      using True by (simp add: Cons.IH t renderRows_Cons renderRow_def)
  next
    case False
    then show ?thesis
      by (simp add: Cons.IH renderRows_Nil)
  qed
qed

lemma survivingRows_Nil: "survivingRows [] = []"
  by (simp add: survivingRows_def)

lemma excelSheet_eq:
  "excelSheet numberToString wb (acc, rows, cols) sheetName =
     (acc @ sheetSection numberToString sheetName (sheetJson wb sheetName),
      rows + length (survivingRows (sheetJson wb sheetName)),
      max cols (case sheetJson wb sheetName of [] \<Rightarrow> 0 | headers # _ \<Rightarrow> length headers))"
proof (cases "sheetJson wb sheetName")
  case Nil
  then show ?thesis
    by (simp add: excelSheet_def sheetSection_def survivingRows_Nil)
next
  case (Cons headers rest)
  have d: "filter (list_ex nonEmptyCell) rest = survivingRows (headers # rest)"
    using dataRows_eq [of "headers # rest"] by simp
  from Cons show ?thesis
    by (simp add: excelSheet_def sheetSection_def Let_def d excelForEach_eq
        list_ex_nonEmptyCell moreRowsLine_def)
qed

lemma foldl_excelSheet:
  "foldl (excelSheet numberToString wb) (acc, rows, cols) names =
     (acc @ concat (map (\<lambda>n. sheetSection numberToString n (sheetJson wb n)) names),
      rows + sum_list (map (\<lambda>n. length (survivingRows (sheetJson wb n))) names),
      foldl max cols (map (\<lambda>n. case sheetJson wb n of [] \<Rightarrow> 0 | headers # _ \<Rightarrow> length headers) names))"
  by (induction names arbitrary: acc rows cols) (simp_all add: excelSheet_eq)

lemma fieldText_own: "map_of row header = Some v \<Longrightarrow> fieldText objectPrototype row header = v"
  by (simp add: fieldText_def orElse_def)

lemma fieldText_missing:
  "map_of row header = None \<Longrightarrow> objectPrototype header = None \<Longrightarrow>
   fieldText objectPrototype row header = []"
  by (simp add: fieldText_def)

lemma fieldText_inherited:
  "map_of row header = None \<Longrightarrow> objectPrototype header = Some inherited \<Longrightarrow>
   fieldText objectPrototype row header = inherited"
  by (simp add: fieldText_def)

lemma csvForEach_eq:
  "csvForEach objectPrototype headers acc index rows =
     acc @ renderRows index (map (\<lambda>row. map (fieldText objectPrototype row) headers) rows)"
proof (induction rows arbitrary: acc index)
  case Nil
  then show ?case by (simp add: renderRows_Nil)
next
  case (Cons row rows)
  then show ?case
    by (simp add: renderRows_Cons renderRow_def)
qed

lemma parseCSV_end_content:
  "content (parseCSV_end objectPrototype results fname ftype fsize) =
     trim (csvRendering objectPrototype results)"
  by (cases results)
    (simp_all add: parseCSV_end_def csvRendering_def Let_def csvForEach_eq moreRowsLine_def)

lemma csvRendering_own:
  assumes "\<forall>row \<in> set results. \<forall>header \<in> set (keys (hd results)). map_of row header \<noteq> None"
  shows "csvRendering p results = csvRendering q results"
proof (cases results)
  case Nil
  then show ?thesis by (simp add: csvRendering_def)
next
  case (Cons first rest)
  have r: "map (fieldText p row) (keys first) = map (fieldText q row) (keys first)"
    if "row \<in> set (take 20 (first # rest))" for row
  proof (rule map_cong [OF refl])
    fix header assume h: "header \<in> set (keys first)"
    from that have "row \<in> set (first # rest)" by (rule in_set_takeD)
    with assms h Cons obtain v where "map_of row header = Some v" by fastforce
    then show "fieldText p row header = fieldText q row header"
      by (simp add: fieldText_own)
  qed
  have m: "map (\<lambda>row. map (fieldText p row) (keys first)) (take 20 (first # rest)) =
        map (\<lambda>row. map (fieldText q row) (keys first)) (take 20 (first # rest))"
    by (rule map_cong [OF refl]) (rule r)
  show ?thesis
    by (simp only: Cons csvRendering_def list.case m)
qed

lemma parseExcel_content:
  "content (parseExcel numberToString wb fname ftype fsize) =
     trim (concat (map (\<lambda>n. sheetSection numberToString n (sheetJson wb n)) (SheetNames wb)))"
  by (simp add: parseExcel_def foldl_excelSheet)

lemma parseExcel_rowCount:
  "rowCount (metadata (parseExcel numberToString wb fname ftype fsize)) =
     Some (sum_list (map (\<lambda>n. length (survivingRows (sheetJson wb n))) (SheetNames wb)))"
  by (simp add: parseExcel_def foldl_excelSheet)

lemma dropWhile_keeps: "x \<in> set xs \<Longrightarrow> \<not> P x \<Longrightarrow> x \<in> set (dropWhile P xs)"
  by (induction xs) auto

lemma trim_not_Nil: "x \<in> set s \<Longrightarrow> \<not> isWhiteSpace x \<Longrightarrow> trim s \<noteq> []"
proof -
  assume a: "x \<in> set s" "\<not> isWhiteSpace x"
  then have "x \<in> set (rev (dropWhile isWhiteSpace s))"
    using dropWhile_keeps by fastforce
  then have "dropWhile isWhiteSpace (rev (dropWhile isWhiteSpace s)) \<noteq> []"
    using a(2) by auto
  then show ?thesis by (simp add: trim_def)
qed

lemma trim_Nil: "trim [] = []"
  by (simp add: trim_def)

section \<open>Lines of the rendering\<close>

lemma digitChar_no_newline: "digitChar d \<noteq> CHR ''\<newline>''"
proof -
  have "d mod 10 < length ''0123456789''" by simp
  then have "''0123456789'' ! (d mod 10) \<in> set ''0123456789''"
    by (rule nth_mem)
  then show ?thesis
    unfolding digitChar_def by auto
qed

lemma numToString_no_newline: "CHR ''\<newline>'' \<notin> set (numToString n)"
proof (induction n rule: numToString.induct)
  case (1 n)
  show ?case
  proof (cases "n < 10")
    case True
    then show ?thesis
      using digitChar_no_newline [of n] by (subst numToString.simps) auto
  next
    case False
    then show ?thesis
      using 1 digitChar_no_newline [of "n mod 10"] by (subst numToString.simps) auto
  qed
qed

lemma join_no_newline:
  "c \<notin> set sep \<Longrightarrow> \<forall>v \<in> set vals. c \<notin> set v \<Longrightarrow> c \<notin> set (join sep vals)"
  by (induction sep vals rule: join.induct) auto

lemma count_line:
  assumes "CHR ''\<newline>'' \<notin> set l"
  shows "count_list (linesOf (l @ CHR ''\<newline>'' # rest)) m =
         (if l = m then 1 else 0) + count_list (linesOf rest) m"
  using assms by (simp add: linesOf_def split_append split_no_sep)

lemma count_last:
  assumes "CHR ''\<newline>'' \<notin> set l"
  shows "count_list (linesOf l) m = (if l = m then 1 else 0)"
  using assms by (simp add: linesOf_def split_no_sep)

lemma count_renderRows:
  assumes "\<forall>vals \<in> set rs. \<forall>v \<in> set vals. CHR ''\<newline>'' \<notin> set v"
  shows "count_list (linesOf (renderRows k rs @ rest)) ''... and 5 more rows'' =
         count_list (linesOf rest) ''... and 5 more rows''"
  using assms
proof (induction rs arbitrary: k)
  case Nil
  then show ?case by (simp add: renderRows_Nil)
next
  case (Cons vals rs)
  let ?l = "''Row '' @ numToString (k + 1) @ '': '' @ join '' | '' vals"
  have "CHR ''\<newline>'' \<notin> set (join '' | '' vals)"
    using Cons.prems by (intro join_no_newline) auto
  then have nl: "CHR ''\<newline>'' \<notin> set ?l"
    using numToString_no_newline [of "k + 1"] by auto
  have ne: "?l \<noteq> ''... and 5 more rows''"
    by simp
  have e: "renderRows k (vals # rs) @ rest = ?l @ CHR ''\<newline>'' # (renderRows (Suc k) rs @ rest)"
    by (simp add: renderRows_Cons renderRow_def)
  have "count_list (linesOf (renderRows k (vals # rs) @ rest)) ''... and 5 more rows'' =
        count_list (linesOf (renderRows (Suc k) rs @ rest)) ''... and 5 more rows''"
    unfolding e using count_line [OF nl] ne by simp
  then show ?case
    using Cons by simp
qed

lemma trim_wrapped:
  assumes "t \<noteq> []" and "\<not> isWhiteSpace (hd t)" and "\<not> isWhiteSpace (last t)"
  shows "trim (''\<newline>\<newline>'' @ t @ ''\<newline>'') = t"
proof -
  have w: "isWhiteSpace CHR ''\<newline>''"
    by (simp add: isWhiteSpace_def)
  obtain c t' where t: "t = c # t'"
    using assms(1) by (cases t) auto
  have "dropWhile isWhiteSpace (''\<newline>\<newline>'' @ t @ ''\<newline>'') = t @ ''\<newline>''"
    using w assms(2) t by simp
  moreover obtain t'' d where t2: "t = t'' @ [d]"
    using assms(1) by (cases t rule: rev_cases) auto
  moreover have "dropWhile isWhiteSpace (rev (t @ ''\<newline>'')) = rev t"
    using w assms(3) t2 by simp
  ultimately show ?thesis
    by (simp add: trim_def)
qed

lemma count_line_other:
  assumes "CHR ''\<newline>'' \<notin> set l" and "l \<noteq> m"
  shows "count_list (linesOf (l @ CHR ''\<newline>'' # rest)) m = count_list (linesOf rest) m"
  using assms by (simp add: count_line)

lemma count_line_same:
  assumes "CHR ''\<newline>'' \<notin> set m"
  shows "count_list (linesOf (m @ CHR ''\<newline>'' # rest)) m = Suc (count_list (linesOf rest) m)"
  using assms by (simp add: count_line)

lemma count_last_same:
  assumes "CHR ''\<newline>'' \<notin> set m"
  shows "count_list (linesOf m) m = 1"
  using assms by (simp add: count_last)

lemma count_optional_line:
  assumes "H = [] \<or> (\<exists>hl. H = hl @ ''\<newline>'' \<and> CHR ''\<newline>'' \<notin> set hl \<and> hl \<noteq> m)"
  shows "count_list (linesOf (H @ rest)) m = count_list (linesOf rest) m"
  using assms by (auto simp: count_line)

lemma count_data_first:
  assumes a: "CHR ''\<newline>'' \<notin> set a" and b: "CHR ''\<newline>'' \<notin> set b"
    and h: "H = [] \<or> (\<exists>hl. H = hl @ ''\<newline>'' \<and> CHR ''\<newline>'' \<notin> set hl \<and>
                 hl \<noteq> ''... and 5 more rows'')"
    and rows: "\<forall>vals \<in> set rs. \<forall>v \<in> set vals. CHR ''\<newline>'' \<notin> set v"
  shows "count_list (linesOf (trim
           ((''\<newline>\<newline>=== Sheet: '' @ a @ '' ===\<newline>'' @ H @
             ''Data (15 rows):\<newline>'' @ renderRows 0 rs @ ''... and 5 more rows\<newline>'') @
            ''\<newline>\<newline>=== Sheet: '' @ b @ '' ===\<newline>'')))
         ''... and 5 more rows'' = 1"
proof -
  let ?m = "''... and 5 more rows''"
  let ?l7 = "''=== Sheet: '' @ b @ '' ===''"
  let ?r6 = "[] @ CHR ''\<newline>'' # ?l7"
  let ?r5 = "[] @ CHR ''\<newline>'' # ?r6"
  let ?r4 = "?m @ CHR ''\<newline>'' # ?r5"
  let ?r3 = "renderRows 0 rs @ ?r4"
  let ?r2 = "''Data (15 rows):'' @ CHR ''\<newline>'' # ?r3"
  let ?r1 = "H @ ?r2"
  let ?l1 = "''=== Sheet: '' @ a @ '' ===''"
  let ?t = "?l1 @ CHR ''\<newline>'' # ?r1"
  have e: "CHR ''\<newline>'' \<notin> set []" "[] \<noteq> ?m"
    by simp_all
  have n7: "CHR ''\<newline>'' \<notin> set ?l7" and ne7: "?l7 \<noteq> ?m"
    using b by simp_all
  have nm: "CHR ''\<newline>'' \<notin> set ?m"
    by simp
  have nd: "CHR ''\<newline>'' \<notin> set ''Data (15 rows):''" and ned: "''Data (15 rows):'' \<noteq> ?m"
    by simp_all
  have n1: "CHR ''\<newline>'' \<notin> set ?l1" and ne1: "?l1 \<noteq> ?m"
    using a by simp_all
  have c7: "count_list (linesOf ?l7) ?m = 0"
    using count_last [OF n7, of ?m] ne7 by (simp only: if_False)
  have c6: "count_list (linesOf ?r6) ?m = 0"
    by (rule trans [OF count_line_other [OF e] c7])
  have c5: "count_list (linesOf ?r5) ?m = 0"
    by (rule trans [OF count_line_other [OF e] c6])
  have c4: "count_list (linesOf ?r4) ?m = 1"
    unfolding count_line_same [OF nm] c5 by simp
  have c3: "count_list (linesOf ?r3) ?m = 1"
    by (rule trans [OF count_renderRows [OF rows] c4])
  have c2: "count_list (linesOf ?r2) ?m = 1"
    by (rule trans [OF count_line_other [OF nd ned] c3])
  have c1: "count_list (linesOf ?r1) ?m = 1"
    by (rule trans [OF count_optional_line [OF h] c2])
  have ct: "count_list (linesOf ?t) ?m = 1"
    by (rule trans [OF count_line_other [OF n1 ne1] c1])
  have tr: "trim (''\<newline>\<newline>'' @ ?t @ ''\<newline>'') = ?t"
    by (rule trim_wrapped) (simp_all add: isWhiteSpace_def)
  have w: "(''\<newline>\<newline>=== Sheet: '' @ a @ '' ===\<newline>'' @ H @
             ''Data (15 rows):\<newline>'' @ renderRows 0 rs @ ''... and 5 more rows\<newline>'') @
            ''\<newline>\<newline>=== Sheet: '' @ b @ '' ===\<newline>'' = ''\<newline>\<newline>'' @ ?t @ ''\<newline>''"
    by simp
  show ?thesis
    by (simp only: w tr ct)
qed

lemma count_empty_first:
  assumes a: "CHR ''\<newline>'' \<notin> set a" and b: "CHR ''\<newline>'' \<notin> set b"
    and h: "H = [] \<or> (\<exists>hl. H = hl @ ''\<newline>'' \<and> CHR ''\<newline>'' \<notin> set hl \<and>
                 hl \<noteq> ''... and 5 more rows'')"
    and rows: "\<forall>vals \<in> set rs. \<forall>v \<in> set vals. CHR ''\<newline>'' \<notin> set v"
  shows "count_list (linesOf (trim
           ((''\<newline>\<newline>=== Sheet: '' @ b @ '' ===\<newline>'') @
            (''\<newline>\<newline>=== Sheet: '' @ a @ '' ===\<newline>'' @ H @
             ''Data (15 rows):\<newline>'' @ renderRows 0 rs @ ''... and 5 more rows\<newline>''))))
         ''... and 5 more rows'' = 1"
proof -
  let ?m = "''... and 5 more rows''"
  let ?r3 = "renderRows 0 rs @ ?m"
  let ?r2 = "''Data (15 rows):'' @ CHR ''\<newline>'' # ?r3"
  let ?r1 = "H @ ?r2"
  let ?l1 = "''=== Sheet: '' @ a @ '' ===''"
  let ?q3 = "?l1 @ CHR ''\<newline>'' # ?r1"
  let ?q2 = "[] @ CHR ''\<newline>'' # ?q3"
  let ?q1 = "[] @ CHR ''\<newline>'' # ?q2"
  let ?l0 = "''=== Sheet: '' @ b @ '' ===''"
  let ?t = "?l0 @ CHR ''\<newline>'' # ?q1"
  have e: "CHR ''\<newline>'' \<notin> set []" "[] \<noteq> ?m"
    by simp_all
  have n0: "CHR ''\<newline>'' \<notin> set ?l0" and ne0: "?l0 \<noteq> ?m"
    using b by simp_all
  have nm: "CHR ''\<newline>'' \<notin> set ?m"
    by simp
  have nd: "CHR ''\<newline>'' \<notin> set ''Data (15 rows):''" and ned: "''Data (15 rows):'' \<noteq> ?m"
    by simp_all
  have n1: "CHR ''\<newline>'' \<notin> set ?l1" and ne1: "?l1 \<noteq> ?m"
    using a by simp_all
  have c4: "count_list (linesOf ?m) ?m = 1"
    by (rule count_last_same [OF nm])
  have c3: "count_list (linesOf ?r3) ?m = 1"
    by (rule trans [OF count_renderRows [OF rows] c4])
  have c2: "count_list (linesOf ?r2) ?m = 1"
    by (rule trans [OF count_line_other [OF nd ned] c3])
  have c1: "count_list (linesOf ?r1) ?m = 1"
    by (rule trans [OF count_optional_line [OF h] c2])
  have q3: "count_list (linesOf ?q3) ?m = 1"
    by (rule trans [OF count_line_other [OF n1 ne1] c1])
  have q2: "count_list (linesOf ?q2) ?m = 1"
    by (rule trans [OF count_line_other [OF e] q3])
  have q1: "count_list (linesOf ?q1) ?m = 1"
    by (rule trans [OF count_line_other [OF e] q2])
  have ct: "count_list (linesOf ?t) ?m = 1"
    by (rule trans [OF count_line_other [OF n0 ne0] q1])
  have tr: "trim (''\<newline>\<newline>'' @ ?t @ ''\<newline>'') = ?t"
    by (rule trim_wrapped) (simp_all add: isWhiteSpace_def)
  have w: "(''\<newline>\<newline>=== Sheet: '' @ b @ '' ===\<newline>'') @
            (''\<newline>\<newline>=== Sheet: '' @ a @ '' ===\<newline>'' @ H @
             ''Data (15 rows):\<newline>'' @ renderRows 0 rs @ ''... and 5 more rows\<newline>'')
          = ''\<newline>\<newline>'' @ ?t @ ''\<newline>''"
    by simp
  show ?thesis
    by (simp only: w tr ct)
qed

lemma trim_line:
  assumes "t \<noteq> []" and "\<not> isWhiteSpace (hd t)" and "\<not> isWhiteSpace (last t)"
  shows "trim (t @ ''\<newline>'') = t"
proof -
  have w: "isWhiteSpace CHR ''\<newline>''"
    by (simp add: isWhiteSpace_def)
  obtain c t' where t: "t = c # t'"
    using assms(1) by (cases t) auto
  have "dropWhile isWhiteSpace (t @ ''\<newline>'') = t @ ''\<newline>''"
    using assms(2) t by simp
  moreover obtain t'' d where t2: "t = t'' @ [d]"
    using assms(1) by (cases t rule: rev_cases) auto
  moreover have "dropWhile isWhiteSpace (rev (t @ ''\<newline>'')) = rev t"
    using w assms(3) t2 by simp
  ultimately show ?thesis
    by (simp add: trim_def)
qed

lemma numToString_small:
  "numToString 5 = ''5''" "numToString 15 = ''15''" "numToString 25 = ''25''"
  by (simp_all add: numToString.simps digitChar_def)

section \<open>Evaluations used below\<close>

lemma toFixed2KB_0: "toFixed2KB 0 = ''0.00''"
  by (simp add: toFixed2KB_def numToString.simps digitChar_def)

lemma toFixed2KB_2048: "toFixed2KB 2048 = ''2.00''"
  by (simp add: toFixed2KB_def numToString.simps digitChar_def)

lemma parsePDF_catch_long: "length (content (parsePDF_catch fname ftype fsize)) > 200"
  by (simp add: parsePDF_catch_def)

section \<open>The claims\<close>

text \<open>
  C3. Whenever the \<^verbatim>\<open>try\<close> block of the PDF extractor throws (the request rejects on a
  network error or on the timeout, the response is not a success, or its body is
  malformed or \<^verbatim>\<open>null\<close>), the extractor returns a document and does not raise: the page
  count is 1, and the content contains the file name, the size in KB with two decimals
  and the note that no text could be extracted.
\<close>

theorem parsePDF_fallback:
  assumes "parsePDF_try response fname ftype fsize = None"
  shows "pageCount (metadata (parsePDF response fname ftype fsize)) = Some 1 \<and>
         includesStr (content (parsePDF response fname ftype fsize)) fname \<and>
         includesStr (content (parsePDF response fname ftype fsize)) (toFixed2KB fsize @ '' KB'') \<and>
         includesStr (content (parsePDF response fname ftype fsize))
           ''Note: Could not extract text content from this PDF file.''"
proof -
  let ?c = "content (parsePDF_catch fname ftype fsize)"
  have eq: "parsePDF response fname ftype fsize = parsePDF_catch fname ftype fsize"
    using assms by (simp add: parsePDF_def)
  have p: "pageCount (metadata (parsePDF_catch fname ftype fsize)) = Some 1"
    by (simp add: parsePDF_catch_def)
  have "?c = ''PDF file: '' @ fname @ (''\<newline>\<newline>File Information:\<newline>- File Name: '' @ fname @
         ''\<newline>- File Type: '' @ ftype @
         ''\<newline>- File Size: '' @ toFixed2KB fsize @
         '' KB\<newline>- Document Format: PDF\<newline>\<newline>Note: Could not extract text content from this PDF file. Please try uploading a CSV or Excel file for full content analysis, or describe what you're looking for in this PDF and I can provide guidance.'')"
    by (simp add: parsePDF_catch_def)
  then have n: "includesStr ?c fname"
    using includesStr_mid by metis
  have "?c = (''PDF file: '' @ fname @ ''\<newline>\<newline>File Information:\<newline>- File Name: '' @ fname @
         ''\<newline>- File Type: '' @ ftype @
         ''\<newline>- File Size: '') @ (toFixed2KB fsize @ '' KB'') @
         ''\<newline>- Document Format: PDF\<newline>\<newline>Note: Could not extract text content from this PDF file. Please try uploading a CSV or Excel file for full content analysis, or describe what you're looking for in this PDF and I can provide guidance.''"
    by (simp add: parsePDF_catch_def)
  then have s: "includesStr ?c (toFixed2KB fsize @ '' KB'')"
    using includesStr_mid by metis
  have "?c = (''PDF file: '' @ fname @ ''\<newline>\<newline>File Information:\<newline>- File Name: '' @ fname @
         ''\<newline>- File Type: '' @ ftype @
         ''\<newline>- File Size: '' @ toFixed2KB fsize @
         '' KB\<newline>- Document Format: PDF\<newline>\<newline>'') @ ''Note: Could not extract text content from this PDF file.'' @ '' Please try uploading a CSV or Excel file for full content analysis, or describe what you're looking for in this PDF and I can provide guidance.''"
    by (simp add: parsePDF_catch_def)
  then have t: "includesStr ?c ''Note: Could not extract text content from this PDF file.''"
    using includesStr_mid by metis
  show ?thesis using eq p n s t by simp
qed

theorem parsePDF_fallback_witness:
  "parsePDF_try (Response False None) ''report.pdf'' ''application/pdf'' 2048 = None \<and>
   pageCount (metadata (parsePDF (Response False None) ''report.pdf'' ''application/pdf'' 2048))
     = Some 1 \<and>
   includesStr (content (parsePDF (Response False None) ''report.pdf'' ''application/pdf'' 2048))
     ''report.pdf'' \<and>
   includesStr (content (parsePDF (Response False None) ''report.pdf'' ''application/pdf'' 2048))
     ''2.00 KB''"
proof -
  have h: "parsePDF_try (Response False None) ''report.pdf'' ''application/pdf'' 2048 = None"
    by (simp add: parsePDF_try_def)
  have k: "toFixed2KB 2048 = ''2.00''"
    by (simp add: toFixed2KB_def numToString.simps digitChar_def)
  show ?thesis
    using h parsePDF_fallback [OF h] k by simp
qed

text \<open>
  C4. The extension is the lower-cased part of the name after its last dot (it is never
  \<^verbatim>\<open>undefined\<close>). For an extension outside pdf, xlsx, xls and csv the dispatcher fails
  with an error whose message names the extension, whatever the collaborators would
  answer: no extractor is run. For pdf it returns what the PDF extractor returns, for
  xlsx and xls what the spreadsheet extractor makes of the workbook, for csv what the
  delimited-text extractor makes of the records; an error thrown by these two is wrapped.
\<close>

theorem parseDocument_dispatch:
  "(\<exists>e. extensionOf (name file) = Some e) \<and>
   (CHR ''.'' \<notin> set q \<longrightarrow> extensionOf (p @ ''.'' @ q) = Some (toLowerCase q)) \<and>
   (extensionOf (name file) = Some ext \<and> ext \<notin> {''pdf'', ''xlsx'', ''xls'', ''csv''} \<longrightarrow>
      parseDocument env file fileBuffer =
        Inl (''Failed to parse document: Unsupported file type: '' @ ext)) \<and>
   (extensionOf (name file) = Some ''pdf'' \<longrightarrow>
      parseDocument env file fileBuffer =
        Inr (parsePDF (fetchParsePdf env fileBuffer (name file) (type file))
               (name file) (type file) (size file))) \<and>
   (extensionOf (name file) = Some ''xlsx'' \<or> extensionOf (name file) = Some ''xls'' \<longrightarrow>
      parseDocument env file fileBuffer =
        (case xlsxRead env fileBuffer of
           Inl err \<Rightarrow> Inl (failedToParse err)
         | Inr wb \<Rightarrow> Inr (parseExcel (jsNumberToString env) wb (name file) (type file) (size file)))) \<and>
   (extensionOf (name file) = Some ''csv'' \<longrightarrow>
      parseDocument env file fileBuffer =
        (case csvParser env fileBuffer of
           Inl err \<Rightarrow> Inl (failedToParse err)
         | Inr results \<Rightarrow> Inr (parseCSV_end (jsObjectPrototype env) results (name file) (type file) (size file))))"
proof (intro conjI impI)
  show "\<exists>e. extensionOf (name file) = Some e"
    by (rule extensionOf_Some)
next
  assume "CHR ''.'' \<notin> set q"
  then show "extensionOf (p @ ''.'' @ q) = Some (toLowerCase q)"
    by (rule extensionOf_dot)
next
  assume "extensionOf (name file) = Some ext \<and> ext \<notin> {''pdf'', ''xlsx'', ''xls'', ''csv''}"
  then show "parseDocument env file fileBuffer =
        Inl (''Failed to parse document: Unsupported file type: '' @ ext)"
    by (simp add: parseDocument_def parseDocument_switch_def failedToParse_def template_def Let_def)
next
  assume "extensionOf (name file) = Some ''pdf''"
  then show "parseDocument env file fileBuffer =
        Inr (parsePDF (fetchParsePdf env fileBuffer (name file) (type file))
               (name file) (type file) (size file))"
    by (simp add: parseDocument_def parseDocument_switch_def Let_def)
next
  assume "extensionOf (name file) = Some ''xlsx'' \<or> extensionOf (name file) = Some ''xls''"
  then show "parseDocument env file fileBuffer =
        (case xlsxRead env fileBuffer of
           Inl err \<Rightarrow> Inl (failedToParse err)
         | Inr wb \<Rightarrow> Inr (parseExcel (jsNumberToString env) wb (name file) (type file) (size file)))"
    by (auto simp: parseDocument_def parseDocument_switch_def Let_def split: sum.splits)
next
  assume "extensionOf (name file) = Some ''csv''"
  then show "parseDocument env file fileBuffer =
        (case csvParser env fileBuffer of
           Inl err \<Rightarrow> Inl (failedToParse err)
         | Inr results \<Rightarrow> Inr (parseCSV_end (jsObjectPrototype env) results (name file) (type file) (size file)))"
    by (auto simp: parseDocument_def parseDocument_switch_def parseCSV_def Let_def split: sum.splits)
qed

theorem parseDocument_dispatch_witness:
  "CHR ''.'' \<notin> set ''TXT'' \<and>
   extensionOf (''notes'' @ ''.'' @ ''TXT'') = Some ''txt'' \<and>
   ''txt'' \<notin> {''pdf'', ''xlsx'', ''xls'', ''csv''} \<and>
   parseDocument exampleEnv \<lparr>name = ''notes.TXT'', type = ''text/plain'', size = 12\<rparr> [] =
     Inl ''Failed to parse document: Unsupported file type: txt'' \<and>
   extensionOf ''Report.v2.PDF'' = Some ''pdf'' \<and>
   parseDocument exampleEnv \<lparr>name = ''Report.v2.PDF'', type = ''application/pdf'', size = 2048\<rparr> [] =
     Inr (parsePDF FetchRejects ''Report.v2.PDF'' ''application/pdf'' 2048) \<and>
   extensionOf ''book.xls'' = Some ''xls'' \<and>
   parseDocument exampleEnv \<lparr>name = ''book.xls'', type = ''application/vnd.ms-excel'', size = 10\<rparr> [] =
     Inr (parseExcel intToString exampleWorkbook ''book.xls'' ''application/vnd.ms-excel'' 10) \<and>
   extensionOf ''data.csv'' = Some ''csv'' \<and>
   parseDocument exampleEnv \<lparr>name = ''data.csv'', type = ''text/csv'', size = 10\<rparr> [] =
     Inr (parseCSV_end exampleObjectPrototype exampleRecords ''data.csv'' ''text/csv'' 10)"
proof -
  have ext_txt: "extensionOf ''notes.TXT'' = Some ''txt''" by code_simp
  have ext_pdf: "extensionOf ''Report.v2.PDF'' = Some ''pdf''" by code_simp
  have ext_xls: "extensionOf ''book.xls'' = Some ''xls''" by code_simp
  have ext_csv: "extensionOf ''data.csv'' = Some ''csv''" by code_simp
  have lower_txt: "toLowerCase ''TXT'' = ''txt''" by code_simp
  have d: "CHR ''.'' \<notin> set ''TXT''" by simp
  have u: "''txt'' \<notin> {''pdf'', ''xlsx'', ''xls'', ''csv''}" by simp
  note a = parseDocument_dispatch [of "\<lparr>name = ''notes.TXT'', type = ''text/plain'', size = 12\<rparr>"
      "''TXT''" "''notes''" "''txt''" exampleEnv "[]"]
  note b = parseDocument_dispatch [of
      "\<lparr>name = ''Report.v2.PDF'', type = ''application/pdf'', size = 2048\<rparr>"
      "''TXT''" "''notes''" "''txt''" exampleEnv "[]"]
  note c = parseDocument_dispatch [of
      "\<lparr>name = ''book.xls'', type = ''application/vnd.ms-excel'', size = 10\<rparr>"
      "''TXT''" "''notes''" "''txt''" exampleEnv "[]"]
  note e = parseDocument_dispatch [of
      "\<lparr>name = ''data.csv'', type = ''text/csv'', size = 10\<rparr>"
      "''TXT''" "''notes''" "''txt''" exampleEnv "[]"]
  show ?thesis
    using a b c e d u ext_txt ext_pdf ext_xls ext_csv lower_txt
    by (simp add: exampleEnv_def)
qed

text \<open>
  C8. Every document that the dispatcher returns carries the name, the declared type
  and the size of the file it was given.
\<close>

theorem parseDocument_metadata:
  assumes "parseDocument env file fileBuffer = Inr doc"
  shows "fileName (metadata doc) = name file \<and>
         fileType (metadata doc) = type file \<and>
         fileSize (metadata doc) = size file"
proof -
  have pdf: "fileName (metadata (parsePDF r n t s)) = n \<and>
             fileType (metadata (parsePDF r n t s)) = t \<and>
             fileSize (metadata (parsePDF r n t s)) = s" for r n t s
    by (auto simp: parsePDF_def parsePDF_try_def parsePDF_catch_def
        split: fetch_result.splits option.splits pdf_json.splits)
  have xl: "fileName (metadata (parseExcel (jsNumberToString env) wb n t s)) = n \<and>
            fileType (metadata (parseExcel (jsNumberToString env) wb n t s)) = t \<and>
            fileSize (metadata (parseExcel (jsNumberToString env) wb n t s)) = s" for wb n t s
    by (simp add: parseExcel_def split: prod.splits)
  have cs: "fileName (metadata (parseCSV_end (jsObjectPrototype env) rs n t s)) = n \<and>
            fileType (metadata (parseCSV_end (jsObjectPrototype env) rs n t s)) = t \<and>
            fileSize (metadata (parseCSV_end (jsObjectPrototype env) rs n t s)) = s" for rs n t s
    by (simp add: parseCSV_end_def Let_def)
  from assms show ?thesis
    using pdf xl cs
    by (auto simp: parseDocument_def parseDocument_switch_def parseCSV_def Let_def
        split: sum.splits if_splits)
qed

theorem parseDocument_metadata_witness:
  "parseDocument exampleEnv \<lparr>name = ''book.xlsx'', type = ''application/x'', size = 4096\<rparr> [] =
     Inr (parseExcel intToString exampleWorkbook ''book.xlsx'' ''application/x'' 4096) \<and>
   fileName (metadata (parseExcel intToString exampleWorkbook ''book.xlsx'' ''application/x'' 4096)) = ''book.xlsx'' \<and>
   fileType (metadata (parseExcel intToString exampleWorkbook ''book.xlsx'' ''application/x'' 4096)) = ''application/x'' \<and>
   fileSize (metadata (parseExcel intToString exampleWorkbook ''book.xlsx'' ''application/x'' 4096)) = 4096"
proof -
  have e: "extensionOf ''book.xlsx'' = Some ''xlsx''" by code_simp
  have h: "parseDocument exampleEnv \<lparr>name = ''book.xlsx'', type = ''application/x'', size = 4096\<rparr> [] =
     Inr (parseExcel intToString exampleWorkbook ''book.xlsx'' ''application/x'' 4096)"
    using e by (simp add: parseDocument_def parseDocument_switch_def exampleEnv_def Let_def)
  show ?thesis
    using h parseDocument_metadata [OF h] by simp
qed

text \<open>
  C10. For a name without a dot the extension is the whole name in lower case: files
  named pdf, xlsx, xls or csv go to their extractor, and for a name whose lower-cased
  form is none of these the error names the whole (lower-cased) name.
\<close>

theorem parseDocument_no_dot:
  assumes "CHR ''.'' \<notin> set (name file)"
  shows "extensionOf (name file) = Some (toLowerCase (name file)) \<and>
   (name file = ''pdf'' \<longrightarrow>
      parseDocument env file fileBuffer =
        Inr (parsePDF (fetchParsePdf env fileBuffer (name file) (type file))
               (name file) (type file) (size file))) \<and>
   (name file = ''xlsx'' \<or> name file = ''xls'' \<longrightarrow>
      parseDocument env file fileBuffer =
        (case xlsxRead env fileBuffer of
           Inl err \<Rightarrow> Inl (failedToParse err)
         | Inr wb \<Rightarrow> Inr (parseExcel (jsNumberToString env) wb (name file) (type file) (size file)))) \<and>
   (name file = ''csv'' \<longrightarrow>
      parseDocument env file fileBuffer =
        (case csvParser env fileBuffer of
           Inl err \<Rightarrow> Inl (failedToParse err)
         | Inr results \<Rightarrow> Inr (parseCSV_end (jsObjectPrototype env) results (name file) (type file) (size file)))) \<and>
   (toLowerCase (name file) \<notin> {''pdf'', ''xlsx'', ''xls'', ''csv''} \<longrightarrow>
      parseDocument env file fileBuffer =
        Inl (''Failed to parse document: Unsupported file type: '' @ toLowerCase (name file)))"
proof -
  have e: "extensionOf (name file) = Some (toLowerCase (name file))"
    using assms by (rule extensionOf_no_dot)
  have l1: "toLowerCase ''pdf'' = ''pdf''" by code_simp
  have l2: "toLowerCase ''xlsx'' = ''xlsx''" by code_simp
  have l3: "toLowerCase ''xls'' = ''xls''" by code_simp
  have l4: "toLowerCase ''csv'' = ''csv''" by code_simp
  show ?thesis
  proof (intro conjI impI)
    show "extensionOf (name file) = Some (toLowerCase (name file))" by (rule e)
  next
    assume "name file = ''pdf''"
    with e l1 show "parseDocument env file fileBuffer =
        Inr (parsePDF (fetchParsePdf env fileBuffer (name file) (type file))
               (name file) (type file) (size file))"
      by (simp add: parseDocument_def parseDocument_switch_def Let_def)
  next
    assume "name file = ''xlsx'' \<or> name file = ''xls''"
    with e l2 l3 show "parseDocument env file fileBuffer =
        (case xlsxRead env fileBuffer of
           Inl err \<Rightarrow> Inl (failedToParse err)
         | Inr wb \<Rightarrow> Inr (parseExcel (jsNumberToString env) wb (name file) (type file) (size file)))"
      by (auto simp: parseDocument_def parseDocument_switch_def Let_def split: sum.splits)
  next
    assume "name file = ''csv''"
    with e l4 show "parseDocument env file fileBuffer =
        (case csvParser env fileBuffer of
           Inl err \<Rightarrow> Inl (failedToParse err)
         | Inr results \<Rightarrow> Inr (parseCSV_end (jsObjectPrototype env) results (name file) (type file) (size file)))"
      by (auto simp: parseDocument_def parseDocument_switch_def parseCSV_def Let_def split: sum.splits)
  next
    assume "toLowerCase (name file) \<notin> {''pdf'', ''xlsx'', ''xls'', ''csv''}"
    with e show "parseDocument env file fileBuffer =
        Inl (''Failed to parse document: Unsupported file type: '' @ toLowerCase (name file))"
      by (simp add: parseDocument_def parseDocument_switch_def failedToParse_def template_def Let_def)
  qed
qed

theorem parseDocument_no_dot_witness:
  "CHR ''.'' \<notin> set ''csv'' \<and>
   parseDocument exampleEnv \<lparr>name = ''csv'', type = ''text/csv'', size = 10\<rparr> [] =
     Inr (parseCSV_end exampleObjectPrototype exampleRecords ''csv'' ''text/csv'' 10) \<and>
   CHR ''.'' \<notin> set ''README'' \<and>
   toLowerCase ''README'' \<notin> {''pdf'', ''xlsx'', ''xls'', ''csv''} \<and>
   parseDocument exampleEnv \<lparr>name = ''README'', type = [], size = 10\<rparr> [] =
     Inl ''Failed to parse document: Unsupported file type: readme''"
proof -
  have d1: "CHR ''.'' \<notin> set (name \<lparr>name = ''csv'', type = ''text/csv'', size = 10\<rparr>)" by simp
  have d2: "CHR ''.'' \<notin> set (name \<lparr>name = ''README'', type = [], size = 10\<rparr>)" by simp
  have l: "toLowerCase ''README'' = ''readme''" by code_simp
  show ?thesis
    using parseDocument_no_dot [OF d1, of exampleEnv "[]"]
      parseDocument_no_dot [OF d2, of exampleEnv "[]"] l
    by (simp add: exampleEnv_def)
qed

text \<open>
  C5, as stated, fails: cells are written verbatim, so a cell that holds a line break
  followed by the text of a remainder line adds such a line. The workbook here has two
  sheets, one with 15 surviving data rows and one empty, and its content has two lines
  \<^verbatim>\<open>... and 5 more rows\<close>.
\<close>

theorem line_break_cell_two_remainder_lines:
  "SheetNames lineBreakWorkbook = [''Data'', ''Empty''] \<and>
   length (survivingRows (sheetJson lineBreakWorkbook ''Data'')) = 15 \<and>
   sheetJson lineBreakWorkbook ''Empty'' = [] \<and>
   count_list (linesOf (content
       (parseExcel intToString lineBreakWorkbook ''book.xlsx'' ''application/x'' 4096)))
     ''... and 5 more rows'' = 2"
proof -
  have a: "SheetNames lineBreakWorkbook = [''Data'', ''Empty'']"
    by (simp add: lineBreakWorkbook_def)
  have b: "length (survivingRows (sheetJson lineBreakWorkbook ''Data'')) = 15"
    by code_simp
  have c: "sheetJson lineBreakWorkbook ''Empty'' = []"
    by (simp add: lineBreakWorkbook_def)
  have "count_list (linesOf (content (parseExcel intToString lineBreakWorkbook [] [] 0)))
     ''... and 5 more rows'' = 2"
    by code_simp
  then have d: "count_list (linesOf (content
       (parseExcel intToString lineBreakWorkbook ''book.xlsx'' ''application/x'' 4096)))
     ''... and 5 more rows'' = 2"
    by (simp add: parseExcel_content)
  show ?thesis
    using a b c d by blast
qed

text \<open>
  C5, amended. The spreadsheet extractor counts and renders only the data rows that
  survive: the rows after the first one that have a non-empty cell. The row count is the
  sum of the surviving rows over the sheets, the sheet names are all the names in file
  order, and the content is the trimmed concatenation of the sheet sections, each with
  at most the first 10 surviving rows as \<^verbatim>\<open>Row <n>: ...\<close> lines and a remainder line when
  there are more. A workbook with two sheets, in either order, one with 15 surviving
  data rows and one empty, has row count 15 and two sheet names, and its content has
  exactly one line \<^verbatim>\<open>... and 5 more rows\<close> provided that no sheet name and no cell of the
  data sheet is written with a line break. So it is on the example workbook.
\<close>

theorem parseExcel_rows:
  "rowCount (metadata (parseExcel numberToString wb fname ftype fsize)) =
     Some (sum_list (map (\<lambda>n. length (survivingRows (sheetJson wb n))) (SheetNames wb))) \<and>
   sheetNames (metadata (parseExcel numberToString wb fname ftype fsize)) = Some (SheetNames wb) \<and>
   content (parseExcel numberToString wb fname ftype fsize) =
     trim (concat (map (\<lambda>n. sheetSection numberToString n (sheetJson wb n)) (SheetNames wb))) \<and>
   ((SheetNames wb = [a, b] \<or> SheetNames wb = [b, a]) \<and>
    length (survivingRows (sheetJson wb a)) = 15 \<and> sheetJson wb b = [] \<longrightarrow>
      rowCount (metadata (parseExcel numberToString wb fname ftype fsize)) = Some 15 \<and>
      map_option length (sheetNames (metadata (parseExcel numberToString wb fname ftype fsize))) =
        Some 2 \<and>
      (CHR ''\<newline>'' \<notin> set a \<and> CHR ''\<newline>'' \<notin> set b \<and>
       (\<forall>row \<in> set (sheetJson wb a). \<forall>c \<in> set row.
          CHR ''\<newline>'' \<notin> set (cellToString numberToString c)) \<longrightarrow>
         count_list (linesOf (content (parseExcel numberToString wb fname ftype fsize)))
           ''... and 5 more rows'' = 1)) \<and>
   rowCount (metadata (parseExcel intToString exampleWorkbook fname ftype fsize)) = Some 15 \<and>
   map_option length
     (sheetNames (metadata (parseExcel intToString exampleWorkbook fname ftype fsize))) = Some 2 \<and>
   count_list (linesOf (content (parseExcel intToString exampleWorkbook fname ftype fsize)))
     ''... and 5 more rows'' = 1"
proof -
  let ?doc = "parseExcel numberToString wb fname ftype fsize"
  let ?P = "(SheetNames wb = [a, b] \<or> SheetNames wb = [b, a]) \<and>
    length (survivingRows (sheetJson wb a)) = 15 \<and> sheetJson wb b = []"
  let ?Q = "CHR ''\<newline>'' \<notin> set a \<and> CHR ''\<newline>'' \<notin> set b \<and>
       (\<forall>row \<in> set (sheetJson wb a). \<forall>c \<in> set row.
          CHR ''\<newline>'' \<notin> set (cellToString numberToString c))"
  have names: "sheetNames (metadata (parseExcel f w fname ftype fsize)) = Some (SheetNames w)"
    for f :: "'b \<Rightarrow> string" and w
    by (simp add: parseExcel_def split: prod.splits)
  have f1: "rowCount (metadata ?doc) =
     Some (sum_list (map (\<lambda>n. length (survivingRows (sheetJson wb n))) (SheetNames wb)))"
    by (rule parseExcel_rowCount)
  have f2: "sheetNames (metadata ?doc) = Some (SheetNames wb)"
    by (rule names)
  have f3: "content ?doc =
     trim (concat (map (\<lambda>n. sheetSection numberToString n (sheetJson wb n)) (SheetNames wb)))"
    by (rule parseExcel_content)
  have two: "rowCount (metadata ?doc) = Some 15 \<and>
      map_option length (sheetNames (metadata ?doc)) = Some 2" if ?P
    using that by (auto simp: parseExcel_rowCount names survivingRows_Nil)
  have one: "count_list (linesOf (content ?doc)) ''... and 5 more rows'' = 1" if p: ?P and q: ?Q
  proof -
    let ?cts = "cellToString numberToString"
    let ?json = "sheetJson wb a"
    let ?H = "if blankRow (hd ?json) then []
              else ''Headers: '' @ join '' | '' (map ?cts (hd ?json)) @ ''\<newline>''"
    let ?rs = "map (map ?cts) (take 10 (survivingRows ?json))"
    from p have l: "length (survivingRows ?json) = 15" and eb: "sheetJson wb b = []"
      by simp_all
    from q have na: "CHR ''\<newline>'' \<notin> set a" and nb: "CHR ''\<newline>'' \<notin> set b"
      and cells: "\<forall>row \<in> set ?json. \<forall>c \<in> set row. CHR ''\<newline>'' \<notin> set (?cts c)"
      by simp_all
    have ne: "?json \<noteq> []"
      using l by (auto simp: survivingRows_Nil)
    have sa: "sheetSection numberToString a ?json =
       ''\<newline>\<newline>=== Sheet: '' @ a @ '' ===\<newline>'' @ ?H @
       ''Data (15 rows):\<newline>'' @ renderRows 0 ?rs @ ''... and 5 more rows\<newline>''"
      using ne l by (simp add: sheetSection_def moreRowsLine_def numToString_small)
    have sb: "sheetSection numberToString b (sheetJson wb b) =
       ''\<newline>\<newline>=== Sheet: '' @ b @ '' ===\<newline>''"
      using eb by (simp add: sheetSection_def)
    have "hd ?json \<in> set ?json"
      using ne by simp
    then have hj: "CHR ''\<newline>'' \<notin> set (join '' | '' (map ?cts (hd ?json)))"
      using cells by (intro join_no_newline) auto
    have h: "?H = [] \<or> (\<exists>hl. ?H = hl @ ''\<newline>'' \<and> CHR ''\<newline>'' \<notin> set hl \<and>
                 hl \<noteq> ''... and 5 more rows'')"
    proof (cases "blankRow (hd ?json)")
      case True
      then show ?thesis by simp
    next
      case False
      let ?hl = "''Headers: '' @ join '' | '' (map ?cts (hd ?json))"
      have "?H = ?hl @ ''\<newline>''" using False by simp
      moreover have "CHR ''\<newline>'' \<notin> set ?hl" using hj by simp
      moreover have "?hl \<noteq> ''... and 5 more rows''" by simp
      ultimately show ?thesis by blast
    qed
    have "set (survivingRows ?json) \<subseteq> set ?json"
      using ne by (auto simp: survivingRows_def dest: list.set_sel(2))
    then have "set (take 10 (survivingRows ?json)) \<subseteq> set ?json"
      using set_take_subset by fastforce
    then have rows: "\<forall>vals \<in> set ?rs. \<forall>v \<in> set vals. CHR ''\<newline>'' \<notin> set v"
      using cells by auto
    from p consider "SheetNames wb = [a, b]" | "SheetNames wb = [b, a]"
      by blast
    then show ?thesis
    proof cases
      case 1
      then have c: "content ?doc =
          trim (sheetSection numberToString a ?json @ sheetSection numberToString b (sheetJson wb b))"
        by (simp add: parseExcel_content)
      show ?thesis
        unfolding c sa sb by (rule count_data_first [OF na nb h rows])
    next
      case 2
      then have c: "content ?doc =
          trim (sheetSection numberToString b (sheetJson wb b) @ sheetSection numberToString a ?json)"
        by (simp add: parseExcel_content)
      show ?thesis
        unfolding c sa sb by (rule count_empty_first [OF na nb h rows])
    qed
  qed
  have f4: "?P \<longrightarrow> rowCount (metadata ?doc) = Some 15 \<and>
      map_option length (sheetNames (metadata ?doc)) = Some 2 \<and>
      (?Q \<longrightarrow> count_list (linesOf (content ?doc)) ''... and 5 more rows'' = 1)"
    using two one by blast
  have "rowCount (metadata (parseExcel intToString exampleWorkbook [] [] 0)) = Some 15"
    by code_simp
  then have f5: "rowCount (metadata (parseExcel intToString exampleWorkbook fname ftype fsize)) = Some 15"
    by (simp add: parseExcel_rowCount)
  have f6: "map_option length
      (sheetNames (metadata (parseExcel intToString exampleWorkbook fname ftype fsize))) = Some 2"
    by (simp add: names exampleWorkbook_def)
  have "count_list (linesOf (content (parseExcel intToString exampleWorkbook [] [] 0)))
     ''... and 5 more rows'' = 1"
    by code_simp
  then have f7: "count_list (linesOf (content (parseExcel intToString exampleWorkbook fname ftype fsize)))
     ''... and 5 more rows'' = 1"
    by (simp add: parseExcel_content)
  show ?thesis
    by (intro conjI) (rule f1 f2 f3 f4 f5 f6 f7)+
qed

theorem parseExcel_rows_witness:
  "SheetNames exampleWorkbook = [''Data'', ''Empty''] \<and>
   length (survivingRows (sheetJson exampleWorkbook ''Data'')) = 15 \<and>
   sheetJson exampleWorkbook ''Empty'' = [] \<and>
   CHR ''\<newline>'' \<notin> set ''Data'' \<and> CHR ''\<newline>'' \<notin> set ''Empty'' \<and>
   list_all (list_all (\<lambda>c. CHR ''\<newline>'' \<notin> set (cellToString intToString c)))
     (sheetJson exampleWorkbook ''Data'') \<and>
   rowCount (metadata (parseExcel intToString exampleWorkbook ''book.xlsx'' ''application/x'' 4096))
     = Some 15 \<and>
   count_list (linesOf (content
       (parseExcel intToString exampleWorkbook ''book.xlsx'' ''application/x'' 4096)))
     ''... and 5 more rows'' = 1"
proof -
  have a: "SheetNames exampleWorkbook = [''Data'', ''Empty'']"
    by (simp add: exampleWorkbook_def)
  have b: "length (survivingRows (sheetJson exampleWorkbook ''Data'')) = 15"
    by code_simp
  have c: "sheetJson exampleWorkbook ''Empty'' = []"
    by (simp add: exampleWorkbook_def)
  have d: "CHR ''\<newline>'' \<notin> set ''Data''" "CHR ''\<newline>'' \<notin> set ''Empty''"
    by simp_all
  have e: "\<forall>row \<in> set (sheetJson exampleWorkbook ''Data''). \<forall>c \<in> set row.
      CHR ''\<newline>'' \<notin> set (cellToString intToString c)"
    by code_simp
  have e': "list_all (list_all (\<lambda>c. CHR ''\<newline>'' \<notin> set (cellToString intToString c)))
     (sheetJson exampleWorkbook ''Data'')"
    using e by (simp add: list_all_iff)
  show ?thesis
    using a b c d e e'
      parseExcel_rows [of intToString exampleWorkbook "''book.xlsx''" "''application/x''" 4096
        "''Data''" "''Empty''"]
    by blast
qed

text \<open>
  C6. For the records of a CSV file the row count is the number of records, not capped,
  the column count is the number of fields of the first record, or 0 without records,
  and the content is the trimmed rendering with at most the first 20 records and a
  remainder line when there are more. With headers a, b, c and 25 records: 3 columns,
  25 rows, and the content is the headers, the count, the rows 1 to 20 and, last, the
  line \<^verbatim>\<open>... and 5 more rows\<close>; on the example records the lines are written out.
\<close>

theorem parseCSV_counts:
  "rowCount (metadata (parseCSV_end objectPrototype results fname ftype fsize)) =
     Some (length results) \<and>
   columnCount (metadata (parseCSV_end objectPrototype results fname ftype fsize)) =
     Some (case results of [] \<Rightarrow> 0 | first # _ \<Rightarrow> length (keys first)) \<and>
   content (parseCSV_end objectPrototype results fname ftype fsize) =
     trim (csvRendering objectPrototype results) \<and>
   (length results = 25 \<and> keys (hd results) = [''a'', ''b'', ''c''] \<longrightarrow>
      columnCount (metadata (parseCSV_end objectPrototype results fname ftype fsize)) = Some 3 \<and>
      rowCount (metadata (parseCSV_end objectPrototype results fname ftype fsize)) = Some 25 \<and>
      content (parseCSV_end objectPrototype results fname ftype fsize) =
        ''Headers: a | b | c\<newline>Data (25 rows):\<newline>'' @
        renderRows 0
          (map (\<lambda>row. map (fieldText objectPrototype row) [''a'', ''b'', ''c'']) (take 20 results)) @
        ''... and 5 more rows'') \<and>
   columnCount (metadata (parseCSV_end objectPrototype exampleRecords fname ftype fsize)) = Some 3 \<and>
   rowCount (metadata (parseCSV_end objectPrototype exampleRecords fname ftype fsize)) = Some 25 \<and>
   linesOf (content (parseCSV_end objectPrototype exampleRecords fname ftype fsize)) =
     [''Headers: a | b | c'', ''Data (25 rows):''] @
     map (\<lambda>i. ''Row '' @ numToString i @ '': '' @ numToString i @ '' | x | y'') [1..<21] @
     [''... and 5 more rows'']"
proof -
  let ?P = "length results = 25 \<and> keys (hd results) = [''a'', ''b'', ''c'']"
  have r: "rowCount (metadata (parseCSV_end objectPrototype rs fname ftype fsize)) =
      Some (length rs)" for rs
    by (simp add: parseCSV_end_def Let_def)
  have k: "columnCount (metadata (parseCSV_end objectPrototype rs fname ftype fsize)) =
     Some (case rs of [] \<Rightarrow> 0 | first # _ \<Rightarrow> length (keys first))" for rs
    by (cases rs) (simp_all add: parseCSV_end_def Let_def)
  have f3: "content (parseCSV_end objectPrototype results fname ftype fsize) =
     trim (csvRendering objectPrototype results)"
    by (rule parseCSV_end_content)
  have g: "columnCount (metadata (parseCSV_end objectPrototype results fname ftype fsize)) = Some 3 \<and>
      rowCount (metadata (parseCSV_end objectPrototype results fname ftype fsize)) = Some 25 \<and>
      content (parseCSV_end objectPrototype results fname ftype fsize) =
        ''Headers: a | b | c\<newline>Data (25 rows):\<newline>'' @
        renderRows 0
          (map (\<lambda>row. map (fieldText objectPrototype row) [''a'', ''b'', ''c'']) (take 20 results)) @
        ''... and 5 more rows''" if p: ?P
  proof -
    let ?t = "''Headers: a | b | c\<newline>Data (25 rows):\<newline>'' @
        renderRows 0
          (map (\<lambda>row. map (fieldText objectPrototype row) [''a'', ''b'', ''c'']) (take 20 results)) @
        ''... and 5 more rows''"
    from p obtain first rest where rs: "results = first # rest"
      by (cases results) auto
    with p have kf: "keys first = [''a'', ''b'', ''c'']"
      by simp
    have "csvRendering objectPrototype results = ?t @ ''\<newline>''"
      using p by (simp add: rs csvRendering_def kf moreRowsLine_def numToString_small)
    moreover have "trim (?t @ ''\<newline>'') = ?t"
      by (rule trim_line) (simp_all add: isWhiteSpace_def)
    ultimately have "content (parseCSV_end objectPrototype results fname ftype fsize) = ?t"
      by (simp only: f3)
    then show ?thesis
      using p by (simp add: r k rs kf)
  qed
  have n: "length exampleRecords = 25"
    by (simp add: exampleRecords_def)
  have k3: "(case exampleRecords of [] \<Rightarrow> 0 | first # _ \<Rightarrow> length (keys first)) = 3"
    by code_simp
  have "\<forall>row \<in> set exampleRecords. \<forall>header \<in> set (keys (hd exampleRecords)).
      map_of row header \<noteq> None"
    by code_simp
  then have o: "csvRendering objectPrototype exampleRecords = csvRendering (\<lambda>name. None) exampleRecords"
    by (rule csvRendering_own)
  have "linesOf (trim (csvRendering (\<lambda>name. None) exampleRecords)) =
     [''Headers: a | b | c'', ''Data (25 rows):''] @
     map (\<lambda>i. ''Row '' @ numToString i @ '': '' @ numToString i @ '' | x | y'') [1..<21] @
     [''... and 5 more rows'']"
    by code_simp
  then have l: "linesOf (content (parseCSV_end objectPrototype exampleRecords fname ftype fsize)) =
     [''Headers: a | b | c'', ''Data (25 rows):''] @
     map (\<lambda>i. ''Row '' @ numToString i @ '': '' @ numToString i @ '' | x | y'') [1..<21] @
     [''... and 5 more rows'']"
    by (simp only: parseCSV_end_content o)
  have f4: "?P \<longrightarrow>
      columnCount (metadata (parseCSV_end objectPrototype results fname ftype fsize)) = Some 3 \<and>
      rowCount (metadata (parseCSV_end objectPrototype results fname ftype fsize)) = Some 25 \<and>
      content (parseCSV_end objectPrototype results fname ftype fsize) =
        ''Headers: a | b | c\<newline>Data (25 rows):\<newline>'' @
        renderRows 0
          (map (\<lambda>row. map (fieldText objectPrototype row) [''a'', ''b'', ''c'']) (take 20 results)) @
        ''... and 5 more rows''"
    using g by blast
  have f5: "columnCount (metadata (parseCSV_end objectPrototype exampleRecords fname ftype fsize)) =
      Some 3"
    by (simp only: k k3)
  have f6: "rowCount (metadata (parseCSV_end objectPrototype exampleRecords fname ftype fsize)) =
      Some 25"
    by (simp only: r n)
  show ?thesis
    by (intro conjI) (rule r k f3 f4 f5 f6 l)+
qed

theorem parseCSV_counts_witness:
  "length exampleRecords = 25 \<and> keys (hd exampleRecords) = [''a'', ''b'', ''c''] \<and>
   columnCount (metadata (parseCSV_end exampleObjectPrototype exampleRecords ''t.csv'' ''text/csv'' 8))
     = Some 3 \<and>
   rowCount (metadata (parseCSV_end exampleObjectPrototype exampleRecords ''t.csv'' ''text/csv'' 8))
     = Some 25 \<and>
   columnCount (metadata (parseCSV_end exampleObjectPrototype [] ''t.csv'' ''text/csv'' 0)) = Some 0"
proof -
  have a: "length exampleRecords = 25"
    by (simp add: exampleRecords_def)
  have b: "keys (hd exampleRecords) = [''a'', ''b'', ''c'']"
    by code_simp
  note t = parseCSV_counts [of exampleObjectPrototype exampleRecords "''t.csv''" "''text/csv''" 8]
  note z = parseCSV_counts [of exampleObjectPrototype "[]" "''t.csv''" "''text/csv''" 0]
  from t [THEN conjunct2, THEN conjunct2, THEN conjunct2, THEN conjunct1] a b
  have c: "columnCount (metadata
      (parseCSV_end exampleObjectPrototype exampleRecords ''t.csv'' ''text/csv'' 8)) = Some 3"
    and d: "rowCount (metadata
      (parseCSV_end exampleObjectPrototype exampleRecords ''t.csv'' ''text/csv'' 8)) = Some 25"
    by blast+
  from z [THEN conjunct2, THEN conjunct1]
  have e: "columnCount (metadata (parseCSV_end exampleObjectPrototype [] ''t.csv'' ''text/csv'' 0))
      = Some 0"
    by simp
  show ?thesis
    by (intro conjI) (rule a b c d e)+
qed

text \<open>
  C1, as stated, fails: the delimited-text extractor substitutes no placeholder, and a
  CSV file with zero records gives the empty string as content.
\<close>

theorem csv_zero_records_empty_content:
  "content (parseCSV_end exampleObjectPrototype [] ''empty.csv'' ''text/csv'' 0) = []"
  by (simp add: parseCSV_end_content csvRendering_def trim_Nil)

text \<open>
  C1, amended. The content is non-empty for every PDF input (the extracted text, or a
  placeholder naming the file when the service gives no text or fails), for every
  workbook with at least one sheet (each sheet contributes its section marker, also
  when all sheets are empty) and for every CSV file with at least one record. The
  spreadsheet and delimited-text extractors substitute no placeholder: a workbook
  without sheets and a CSV file with zero records give the empty string.
\<close>

theorem extractor_content:
  "content (parsePDF response fname ftype fsize) \<noteq> [] \<and>
   (SheetNames wb \<noteq> [] \<longrightarrow> content (parseExcel numberToString wb fname ftype fsize) \<noteq> []) \<and>
   (results \<noteq> [] \<longrightarrow> content (parseCSV_end objectPrototype results fname ftype fsize) \<noteq> []) \<and>
   (SheetNames wb = [] \<longrightarrow> content (parseExcel numberToString wb fname ftype fsize) = []) \<and>
   content (parseCSV_end objectPrototype [] fname ftype fsize) = []"
proof (intro conjI impI)
  have o: "orElse v d \<noteq> []" if "d \<noteq> []" for v d
    using that by (simp add: orElse_def split: option.splits)
  show "content (parsePDF response fname ftype fsize) \<noteq> []"
    by (auto simp: parsePDF_def parsePDF_try_def parsePDF_catch_def o
        split: fetch_result.splits option.splits pdf_json.splits)
next
  assume "SheetNames wb \<noteq> []"
  then obtain n ns where ns: "SheetNames wb = n # ns"
    by (cases "SheetNames wb") auto
  have w: "\<not> isWhiteSpace CHR ''=''"
    by (simp add: isWhiteSpace_def)
  have "CHR ''='' \<in> set (concat (map (\<lambda>n. sheetSection numberToString n (sheetJson wb n)) (SheetNames wb)))"
    by (simp add: ns sheetSection_def)
  then show "content (parseExcel numberToString wb fname ftype fsize) \<noteq> []"
    using w by (simp add: parseExcel_content trim_not_Nil)
next
  assume "results \<noteq> []"
  then obtain first rest where rs: "results = first # rest"
    by (cases results) auto
  have w: "\<not> isWhiteSpace CHR ''H''"
    by (simp add: isWhiteSpace_def)
  have "CHR ''H'' \<in> set (csvRendering objectPrototype results)"
    by (simp add: rs csvRendering_def)
  then show "content (parseCSV_end objectPrototype results fname ftype fsize) \<noteq> []"
    using w by (simp add: parseCSV_end_content trim_not_Nil)
next
  assume "SheetNames wb = []"
  then show "content (parseExcel numberToString wb fname ftype fsize) = []"
    by (simp add: parseExcel_content trim_Nil)
next
  show "content (parseCSV_end objectPrototype [] fname ftype fsize) = []"
    by (simp add: parseCSV_end_content csvRendering_def trim_Nil)
qed

theorem extractor_content_witness:
  "SheetNames exampleWorkbook \<noteq> [] \<and>
   content (parseExcel intToString exampleWorkbook ''book.xlsx'' ''application/x'' 4096) \<noteq> [] \<and>
   exampleRecords \<noteq> [] \<and>
   content (parseCSV_end exampleObjectPrototype exampleRecords ''book.xlsx'' ''application/x'' 4096) \<noteq> [] \<and>
   SheetNames \<lparr>SheetNames = [], sheetJson = (\<lambda>n. [])\<rparr> = [] \<and>
   content (parseExcel intToString \<lparr>SheetNames = [], sheetJson = (\<lambda>n. [])\<rparr> ''book.xlsx'' ''application/x'' 4096) = []"
proof -
  have a: "SheetNames exampleWorkbook \<noteq> []"
    by (simp add: exampleWorkbook_def)
  have b: "exampleRecords \<noteq> []"
    by (simp add: exampleRecords_def upt_rec)
  show ?thesis
    using a b
      extractor_content [where response = FetchRejects and fname = "''book.xlsx''"
        and ftype = "''application/x''" and fsize = 4096 and numberToString = intToString
        and wb = exampleWorkbook and objectPrototype = exampleObjectPrototype
        and results = exampleRecords]
      extractor_content [where response = FetchRejects and fname = "''book.xlsx''"
        and ftype = "''application/x''" and fsize = 4096 and numberToString = intToString
        and wb = "\<lparr>SheetNames = [], sheetJson = (\<lambda>n. [])\<rparr>"
        and objectPrototype = exampleObjectPrototype and results = exampleRecords]
    by simp
qed

text \<open>
  C7, as stated, fails: a numeric field that is present with the value zero gives no
  line. The document of a CSV file with zero records has the row count 0, and the
  prompt has no \<^verbatim>\<open>- Rows:\<close> line.
\<close>

theorem zero_rowCount_no_line:
  "\<not> (rowCount (metadata (parseCSV_end exampleObjectPrototype [] ''empty.csv'' ''text/csv'' 0)) \<noteq> None \<longrightarrow>
      includesStr (generateAnalysisPrompt (parseCSV_end exampleObjectPrototype [] ''empty.csv'' ''text/csv'' 0) None)
        ''- Rows:'')"
proof -
  have d: "parseCSV_end exampleObjectPrototype [] ''empty.csv'' ''text/csv'' 0 =
     \<lparr> content = [],
       metadata = \<lparr> fileName = ''empty.csv'', fileType = ''text/csv'', fileSize = 0,
         pageCount = None, sheetNames = None, rowCount = Some 0, columnCount = Some 0 \<rparr> \<rparr>"
    by (simp add: parseCSV_end_def trim_Nil)
  have "\<not> includesStr (generateAnalysisPrompt (parseCSV_end exampleObjectPrototype [] ''empty.csv'' ''text/csv'' 0) None)
        ''- Rows:''"
    unfolding d
    by (simp add: generateAnalysisPrompt_def Let_def toFixed2KB_0 pagesLine_def sheetsLine_def
        rowsLine_def columnsLine_def questionPart_def isPDF_def hasContent_def genericGuidance_def
        pdfGuidance_def)
  then show ?thesis
    by (simp add: d)
qed

text \<open>
  C7, amended. The metadata block of the prompt is the three fixed lines followed by
  one line for each optional field that passes its test: the page, row and column
  counts give their line when present and not zero, and no line when absent or zero; the
  sheet names give their line, joined by a comma and a space, whenever present. The
  fields that do not apply to a format are absent: a PDF document has no sheet names,
  row count or column count, a spreadsheet document no page count, a CSV document no
  page count and no sheet names.
\<close>

theorem metadata_lines:
  "generateAnalysisPrompt parsedDoc userMessage =
     (''You are analyzing a document to answer a user's question. Please focus on answering their specific question using the document content.\<newline>\<newline>'' @
      ''Document Information:\<newline>'' @
      ''- File: '' @ fileName (metadata parsedDoc) @ ''\<newline>'' @
      ''- Type: '' @ fileType (metadata parsedDoc) @ ''\<newline>'' @
      ''- Size: '' @ toFixed2KB (fileSize (metadata parsedDoc)) @ '' KB\<newline>'') @
     pagesLine (metadata parsedDoc) @ sheetsLine (metadata parsedDoc) @
     rowsLine (metadata parsedDoc) @ columnsLine (metadata parsedDoc) @
     (''\<newline>Document Content:\<newline>'' @ content parsedDoc @ ''\<newline>\<newline>'' @
      questionPart userMessage @
      (if isPDF parsedDoc \<and> \<not> hasContent parsedDoc then pdfGuidance else genericGuidance)) \<and>
   (pageCount m = Some n \<and> n \<noteq> 0 \<longrightarrow>
      pagesLine m = ''- Pages: '' @ numToString n @ ''\<newline>'') \<and>
   (pageCount m = None \<or> pageCount m = Some 0 \<longrightarrow> pagesLine m = []) \<and>
   (sheetNames m = Some names \<longrightarrow>
      sheetsLine m = ''- Sheets: '' @ join '', '' names @ ''\<newline>'') \<and>
   (sheetNames m = None \<longrightarrow> sheetsLine m = []) \<and>
   (rowCount m = Some n \<and> n \<noteq> 0 \<longrightarrow>
      rowsLine m = ''- Rows: '' @ numToString n @ ''\<newline>'') \<and>
   (rowCount m = None \<or> rowCount m = Some 0 \<longrightarrow> rowsLine m = []) \<and>
   (columnCount m = Some n \<and> n \<noteq> 0 \<longrightarrow>
      columnsLine m = ''- Columns: '' @ numToString n @ ''\<newline>'') \<and>
   (columnCount m = None \<or> columnCount m = Some 0 \<longrightarrow> columnsLine m = []) \<and>
   sheetNames (metadata (parsePDF response fname ftype fsize)) = None \<and>
   rowCount (metadata (parsePDF response fname ftype fsize)) = None \<and>
   columnCount (metadata (parsePDF response fname ftype fsize)) = None \<and>
   pageCount (metadata (parseExcel numberToString wb fname ftype fsize)) = None \<and>
   pageCount (metadata (parseCSV_end objectPrototype results fname ftype fsize)) = None \<and>
   sheetNames (metadata (parseCSV_end objectPrototype results fname ftype fsize)) = None"
proof -
  have pdf: "sheetNames (metadata (parsePDF response fname ftype fsize)) = None \<and>
      rowCount (metadata (parsePDF response fname ftype fsize)) = None \<and>
      columnCount (metadata (parsePDF response fname ftype fsize)) = None"
    by (auto simp: parsePDF_def parsePDF_try_def parsePDF_catch_def
        split: fetch_result.splits option.splits pdf_json.splits)
  have xl: "pageCount (metadata (parseExcel numberToString wb fname ftype fsize)) = None"
    by (simp add: parseExcel_def split: prod.splits)
  have cs: "pageCount (metadata (parseCSV_end objectPrototype results fname ftype fsize)) = None \<and>
      sheetNames (metadata (parseCSV_end objectPrototype results fname ftype fsize)) = None"
    by (simp add: parseCSV_end_def Let_def)
  have str: "generateAnalysisPrompt parsedDoc userMessage =
     (''You are analyzing a document to answer a user's question. Please focus on answering their specific question using the document content.\<newline>\<newline>'' @
      ''Document Information:\<newline>'' @
      ''- File: '' @ fileName (metadata parsedDoc) @ ''\<newline>'' @
      ''- Type: '' @ fileType (metadata parsedDoc) @ ''\<newline>'' @
      ''- Size: '' @ toFixed2KB (fileSize (metadata parsedDoc)) @ '' KB\<newline>'') @
     pagesLine (metadata parsedDoc) @ sheetsLine (metadata parsedDoc) @
     rowsLine (metadata parsedDoc) @ columnsLine (metadata parsedDoc) @
     (''\<newline>Document Content:\<newline>'' @ content parsedDoc @ ''\<newline>\<newline>'' @
      questionPart userMessage @
      (if isPDF parsedDoc \<and> \<not> hasContent parsedDoc then pdfGuidance else genericGuidance))"
    by (simp add: generateAnalysisPrompt_def Let_def)
  have lines:
    "(pageCount m = Some n \<and> n \<noteq> 0 \<longrightarrow>
        pagesLine m = ''- Pages: '' @ numToString n @ ''\<newline>'') \<and>
     (pageCount m = None \<or> pageCount m = Some 0 \<longrightarrow> pagesLine m = []) \<and>
     (sheetNames m = Some names \<longrightarrow>
        sheetsLine m = ''- Sheets: '' @ join '', '' names @ ''\<newline>'') \<and>
     (sheetNames m = None \<longrightarrow> sheetsLine m = []) \<and>
     (rowCount m = Some n \<and> n \<noteq> 0 \<longrightarrow>
        rowsLine m = ''- Rows: '' @ numToString n @ ''\<newline>'') \<and>
     (rowCount m = None \<or> rowCount m = Some 0 \<longrightarrow> rowsLine m = []) \<and>
     (columnCount m = Some n \<and> n \<noteq> 0 \<longrightarrow>
        columnsLine m = ''- Columns: '' @ numToString n @ ''\<newline>'') \<and>
     (columnCount m = None \<or> columnCount m = Some 0 \<longrightarrow> columnsLine m = [])"
    by (auto simp: pagesLine_def sheetsLine_def rowsLine_def columnsLine_def)
  show ?thesis
    using pdf xl cs str lines by blast
qed

theorem metadata_lines_witness:
  "rowCount (metadata (parseCSV_end exampleObjectPrototype exampleRecords ''data.csv'' ''text/csv'' 10)) = Some 25 \<and>
   rowsLine (metadata (parseCSV_end exampleObjectPrototype exampleRecords ''data.csv'' ''text/csv'' 10)) =
     ''- Rows: 25\<newline>'' \<and>
   columnCount (metadata (parseCSV_end exampleObjectPrototype [] ''data.csv'' ''text/csv'' 10)) = Some 0 \<and>
   columnsLine (metadata (parseCSV_end exampleObjectPrototype [] ''data.csv'' ''text/csv'' 10)) = [] \<and>
   pageCount (metadata (parseCSV_end exampleObjectPrototype exampleRecords ''data.csv'' ''text/csv'' 10)) = None \<and>
   pagesLine (metadata (parseCSV_end exampleObjectPrototype exampleRecords ''data.csv'' ''text/csv'' 10)) = [] \<and>
   sheetNames (metadata (parseExcel intToString exampleWorkbook ''book.xlsx'' ''application/x'' 10)) =
     Some [''Data'', ''Empty''] \<and>
   sheetsLine (metadata (parseExcel intToString exampleWorkbook ''book.xlsx'' ''application/x'' 10)) =
     ''- Sheets: Data, Empty\<newline>''"
proof -
  have r: "rowCount (metadata (parseCSV_end exampleObjectPrototype exampleRecords ''data.csv'' ''text/csv'' 10)) = Some 25"
    by (simp add: parseCSV_end_def Let_def exampleRecords_def)
  have c: "columnCount (metadata (parseCSV_end exampleObjectPrototype [] ''data.csv'' ''text/csv'' 10)) = Some 0"
    by (simp add: parseCSV_end_def)
  have p: "pageCount (metadata (parseCSV_end exampleObjectPrototype exampleRecords ''data.csv'' ''text/csv'' 10)) = None"
    by (simp add: parseCSV_end_def Let_def)
  have s: "sheetNames (metadata (parseExcel intToString exampleWorkbook ''book.xlsx'' ''application/x'' 10)) =
     Some [''Data'', ''Empty'']"
    by (simp add: parseExcel_def exampleWorkbook_def split: prod.splits)
  have n: "numToString 25 = ''25''"
    by (simp add: numToString.simps digitChar_def)
  have z: "(25::nat) \<noteq> 0"
    by simp
  show ?thesis
    using r c p s n z
      metadata_lines [where parsedDoc = degenerateDocument and userMessage = None
        and m = "metadata (parseCSV_end exampleObjectPrototype exampleRecords ''data.csv'' ''text/csv'' 10)"
        and n = 25 and names = "[]" and response = FetchRejects and fname = "[]"
        and ftype = "[]" and fsize = 0 and numberToString = intToString
        and wb = exampleWorkbook and objectPrototype = exampleObjectPrototype
        and results = "[]"]
      metadata_lines [where parsedDoc = degenerateDocument and userMessage = None
        and m = "metadata (parseCSV_end exampleObjectPrototype [] ''data.csv'' ''text/csv'' 10)"
        and n = 0 and names = "[]" and response = FetchRejects and fname = "[]"
        and ftype = "[]" and fsize = 0 and numberToString = intToString
        and wb = exampleWorkbook and objectPrototype = exampleObjectPrototype
        and results = "[]"]
      metadata_lines [where parsedDoc = degenerateDocument and userMessage = None
        and m = "metadata (parseExcel intToString exampleWorkbook ''book.xlsx'' ''application/x'' 10)"
        and n = 0 and names = "[''Data'', ''Empty'']" and response = FetchRejects and fname = "[]"
        and ftype = "[]" and fsize = 0 and numberToString = intToString
        and wb = exampleWorkbook and objectPrototype = exampleObjectPrototype
        and results = "[]"]
    by simp
qed

text \<open>
  C9. The composer reads nothing but its two arguments and has no failing operation, so
  it is a function of them: it returns a non-empty string for every document and
  optional message, equal arguments give equal prompts, and on the degenerate document
  (empty content, no optional metadata) without a message it returns the prompt written
  out here.
\<close>

theorem generateAnalysisPrompt_total:
  "(\<exists>s. generateAnalysisPrompt parsedDoc userMessage = s \<and> s \<noteq> []) \<and>
   (parsedDoc' = parsedDoc \<and> userMessage' = userMessage \<longrightarrow>
      generateAnalysisPrompt parsedDoc' userMessage' =
      generateAnalysisPrompt parsedDoc userMessage) \<and>
   generateAnalysisPrompt degenerateDocument None =
     ''You are analyzing a document to answer a user's question. Please focus on answering their specific question using the document content.\<newline>\<newline>Document Information:\<newline>- File: \<newline>- Type: \<newline>- Size: 0.00 KB\<newline>\<newline>Document Content:\<newline>\<newline>\<newline>The user has uploaded this document without a specific question. Please provide a comprehensive analysis.\<newline>\<newline>'' @
     genericGuidance"
proof (intro conjI impI)
  show "\<exists>s. generateAnalysisPrompt parsedDoc userMessage = s \<and> s \<noteq> []"
    by (simp add: generateAnalysisPrompt_def Let_def)
next
  assume "parsedDoc' = parsedDoc \<and> userMessage' = userMessage"
  then show "generateAnalysisPrompt parsedDoc' userMessage' =
      generateAnalysisPrompt parsedDoc userMessage"
    by simp
next
  show "generateAnalysisPrompt degenerateDocument None =
     ''You are analyzing a document to answer a user's question. Please focus on answering their specific question using the document content.\<newline>\<newline>Document Information:\<newline>- File: \<newline>- Type: \<newline>- Size: 0.00 KB\<newline>\<newline>Document Content:\<newline>\<newline>\<newline>The user has uploaded this document without a specific question. Please provide a comprehensive analysis.\<newline>\<newline>'' @
     genericGuidance"
    by (simp add: generateAnalysisPrompt_def Let_def degenerateDocument_def toFixed2KB_0
        pagesLine_def sheetsLine_def rowsLine_def columnsLine_def questionPart_def isPDF_def
        hasContent_def endsWith_def toLowerCase_def)
qed

theorem generateAnalysisPrompt_total_witness:
  "generateAnalysisPrompt degenerateDocument (Some ''What is this?'') \<noteq> [] \<and>
   generateAnalysisPrompt degenerateDocument (Some ''What is this?'') =
   generateAnalysisPrompt degenerateDocument (Some ''What is this?'')"
  using generateAnalysisPrompt_total [of degenerateDocument "Some ''What is this?''"
      degenerateDocument "Some ''What is this?''"]
  by simp

text \<open>
  C2. The marker tested by \<^verbatim>\<open>hasContent\<close> does not occur in the content that the
  fallback of the PDF extractor emits, and that content is longer than 200 characters.
  For the fallback document of \<^verbatim>\<open>report.pdf\<close> the composer therefore finds \<^verbatim>\<open>isPDF\<close>
  and \<^verbatim>\<open>hasContent\<close> both true, and appends the generic guidance list, not the
  guidance for a PDF with limited text extraction.
\<close>

theorem fallback_document_gets_generic_guidance:
  "isPDF (parsePDF FetchRejects ''report.pdf'' ''application/pdf'' 2048) \<and>
   hasContent (parsePDF FetchRejects ''report.pdf'' ''application/pdf'' 2048) \<and>
   endsWith (generateAnalysisPrompt (parsePDF FetchRejects ''report.pdf'' ''application/pdf'' 2048)
      None) genericGuidance \<and>
   \<not> includesStr
      (generateAnalysisPrompt (parsePDF FetchRejects ''report.pdf'' ''application/pdf'' 2048) None)
      ''Since this is a PDF with limited text extraction''"
proof -
  let ?d = "parsePDF FetchRejects ''report.pdf'' ''application/pdf'' 2048"
  have d: "?d = parsePDF_catch ''report.pdf'' ''application/pdf'' 2048"
    by (simp add: parsePDF_def parsePDF_try_def)
  have i: "isPDF ?d"
    by (simp add: d isPDF_def parsePDF_catch_def)
  have "\<not> includesStr (content (parsePDF_catch ''report.pdf'' ''application/pdf'' 2048))
      ''Document Analysis Request''"
    by (simp add: parsePDF_catch_def toFixed2KB_2048)
  then have h: "hasContent ?d"
    using parsePDF_catch_long by (simp add: d hasContent_def)
  have p: "generateAnalysisPrompt ?d None =
     (''You are analyzing a document to answer a user's question. Please focus on answering their specific question using the document content.\<newline>\<newline>'' @
      ''Document Information:\<newline>'' @
      ''- File: report.pdf\<newline>'' @
      ''- Type: application/pdf\<newline>'' @
      ''- Size: 2.00 KB\<newline>'' @
      ''- Pages: 1\<newline>'' @
      ''\<newline>Document Content:\<newline>'' @
      content (parsePDF_catch ''report.pdf'' ''application/pdf'' 2048) @ ''\<newline>\<newline>'' @
      ''The user has uploaded this document without a specific question. Please provide a comprehensive analysis.\<newline>\<newline>'') @
     genericGuidance"
    using i h
    by (simp add: generateAnalysisPrompt_def Let_def d [symmetric] questionPart_def)
       (simp add: d parsePDF_catch_def toFixed2KB_2048 pagesLine_def sheetsLine_def rowsLine_def
          columnsLine_def numToString.simps digitChar_def)
  have e: "endsWith (generateAnalysisPrompt ?d None) genericGuidance"
    unfolding p endsWith_def by (simp add: startsWith_append)
  have n: "\<not> includesStr (generateAnalysisPrompt ?d None)
      ''Since this is a PDF with limited text extraction''"
    unfolding p
    by (simp add: parsePDF_catch_def toFixed2KB_2048 genericGuidance_def)
  show ?thesis
    using i h e n by blast
qed

end
